theory Spec2Isabelle
  imports Complex_Main
begin

section \<open>Data model of \<open>threeML/utils/time_series/time_series.py\<close>\<close>

text \<open>
  Python floats are idealised as the reals (no rounding, no non-finite values); the one
  non-finite value the source itself tests for, the fill marker of a stored coefficient
  table, is the \<open>None\<close> of a \<open>real option\<close> cell. Console output (\<open>print\<close>,
  \<open>display\<close>, the progress bar) is not modelled.
\<close>

type_synonym time_interval = "real \<times> real"

type_synonym time_interval_set = "time_interval list"

text \<open>
  Modelled from the spec: the type \<open>TimeIntervalSet\<close> of \<open>threeML.utils.time_interval\<close>
  is an ordered collection of (start, stop) intervals with start/stop accessors; it is
  defined in another module.
\<close>

definition start_times :: "time_interval_set \<Rightarrow> real list" where
  "start_times ivs = map fst ivs"

definition stop_times :: "time_interval_set \<Rightarrow> real list" where
  "stop_times ivs = map snd ivs"

definition from_starts_and_stops :: "real list \<Rightarrow> real list \<Rightarrow> time_interval_set" where
  "from_starts_and_stops starts stops = zip starts stops"

text \<open>
  Modelled from the spec: a \<open>Polynomial\<close> of \<open>threeML.utils.time_series.polynomial\<close>
  (the FittedModel) is a coefficient vector and a covariance matrix;
  \<open>Polynomial.from_previous_fit\<close> rebuilds one from the two. Its integrals are taken
  from the environment below.
\<close>

record polynomial =
  coefficients :: "real list"
  covariance_matrix :: "real list list"

definition from_previous_fit :: "real list \<Rightarrow> real list list \<Rightarrow> polynomial" where
  "from_previous_fit coeff cov = \<lparr>coefficients = coeff, covariance_matrix = cov\<rparr>"

datatype error =
    AttributeError string
  | IndexError
  | KeyError string
  | AssertionError string
  | RuntimeError string
  | IOError string

datatype pyvalue = PyBool bool | PyInt int | PyFloat real | PyStr string | PyNone

text \<open>The three warnings of \<open>set_polynomial_fit_interval\<close>, with the numbers they print.\<close>

datatype warning =
    StartedBefore real real real real real
  | EndedAfter real real real real real
  | OutsideDropped real real

text \<open>
  What a call did besides changing the attributes: the warnings it issued and the fitting,
  grade-selection and selection-refresh routines it entered, in order. The log is kept by
  the methods below; the collaborators of the environment never write to it.
\<close>

datatype event = Warned warning | Entered string

record time_series =
  verbose :: bool
  n_channels :: int
  first_channel :: int
  start_time :: real
  stop_time :: real
  arrival_times :: "real list"
  energies :: "int list"
  time_intervals :: "time_interval_set option"
  user_poly_order :: int
  time_selection_exists :: bool
  poly_fit_exists :: bool
  bin_type :: "string option"
  fit_method :: "string option"
  poly_intervals :: "time_interval_set option"
  polynomials :: "polynomial list option"
  optimal_polynomial_grade :: "int option"
  unbinned :: "bool option"
  trace :: "event list"

text \<open>
  The collaborators the class calls and does not define: the subclass's
  \<open>exposure_over_interval\<close> and \<open>set_active_time_intervals\<close>, the regressors
  \<open>polyfit\<close> and \<open>unbinned_polyfit\<close> (a polynomial and a log-likelihood each), the
  integrals and errors of a \<open>Polynomial\<close>, the string forms of a \<open>TimeIntervalSet\<close>,
  the two configured fit-method names, \<open>sanitize_filename\<close> and \<open>os.path.splitext\<close>.
\<close>

record env =
  exposure_over_interval :: "real \<Rightarrow> real \<Rightarrow> real"
  polyfit :: "real list \<Rightarrow> nat list \<Rightarrow> int \<Rightarrow> real list \<Rightarrow> polynomial \<times> real"
  unbinned_polyfit :: "real list \<Rightarrow> int \<Rightarrow> real list \<Rightarrow> real list \<Rightarrow> real \<Rightarrow> polynomial \<times> real"
  integral :: "polynomial \<Rightarrow> real \<Rightarrow> real \<Rightarrow> real"
  integral_error :: "polynomial \<Rightarrow> real \<Rightarrow> real \<Rightarrow> real"
  poly_error :: "polynomial \<Rightarrow> real list"
  from_strings :: "string list \<Rightarrow> error + time_interval_set"
  to_string :: "time_interval_set \<Rightarrow> string"
  set_active_time_intervals :: "string list \<Rightarrow> time_series \<Rightarrow> error option \<times> time_series"
  binned_fit_method :: string
  unbinned_fit_method :: string
  sanitize_filename :: "string \<Rightarrow> string"
  splitext :: "string \<Rightarrow> string \<times> string"

text \<open>
  \<open>TimeSeries.__init__\<close>: the attributes it sets; the others do not exist yet. The
  arrival times and channels of the events, which the subclass sets, are given here too.
\<close>

definition init :: "real \<Rightarrow> real \<Rightarrow> int \<Rightarrow> int \<Rightarrow> bool \<Rightarrow> real list \<Rightarrow> int list \<Rightarrow> time_series" where
  "init start stop n_chan first verb arrivals chans =
     \<lparr>verbose = verb, n_channels = n_chan, first_channel = first,
      start_time = start, stop_time = stop,
      arrival_times = arrivals, energies = chans,
      time_intervals = None,
      user_poly_order = - 1,
      time_selection_exists = False,
      poly_fit_exists = False,
      bin_type = None, fit_method = None,
      poly_intervals = None, polynomials = None,
      optimal_polynomial_grade = None, unbinned = None,
      trace = []\<rparr>"

section \<open>numpy helpers\<close>

text \<open>\<open>a[mask]\<close> for a boolean mask of the length of \<open>a\<close>.\<close>

definition select :: "'a list \<Rightarrow> bool list \<Rightarrow> 'a list" where
  "select xs msk = map fst (filter snd (zip xs msk))"

definition logical_or :: "bool list \<Rightarrow> bool list \<Rightarrow> bool list" where
  "logical_or a b = map (\<lambda>(x, y). x \<or> y) (zip a b)"

text \<open>\<open>mask.nonzero()[0]\<close>: the indices of the true entries, ascending.\<close>

definition nonzero :: "bool list \<Rightarrow> nat list" where
  "nonzero msk = filter (\<lambda>i. msk ! i) [0..<length msk]"

text \<open>\<open>np.arange(start, stop, 1.)\<close>.\<close>

definition arange :: "real \<Rightarrow> real \<Rightarrow> real list" where
  "arange a b = map (\<lambda>i. a + real i) [0..<nat \<lceil>b - a\<rceil>]"

text \<open>
  \<open>np.histogram(xs, bins=edges)[0]\<close>: one count per pair of consecutive edges, every bin
  half-open but the last, which is closed.
\<close>

definition histogram :: "real list \<Rightarrow> real list \<Rightarrow> nat list" where
  "histogram xs edges =
     map (\<lambda>i. length (filter (\<lambda>x. edges ! i \<le> x \<and>
                  (if i + 2 = length edges then x \<le> edges ! (i + 1) else x < edges ! (i + 1))) xs))
         [0..<length edges - 1]"

text \<open>\<open>str.split(',')\<close>.\<close>

fun split_comma :: "string \<Rightarrow> string list" where
  "split_comma [] = [[]]"
| "split_comma (c # cs) =
     (if c = CHR '','' then [] # split_comma cs
      else (case split_comma cs of
              [] \<Rightarrow> [[c]]
            | w # ws \<Rightarrow> (c # w) # ws))"

section \<open>Grade selection\<close>

text \<open>
  The common tail of the two selectors: the likelihood-ratio statistics of consecutive
  grades, the mask of those at or over the threshold 9.0, and the last index of the mask
  plus one (0 when the mask is all false).
\<close>

definition delta_loglike :: "real list \<Rightarrow> real list" where
  "delta_loglike log_likelihoods =
     map (\<lambda>x. 2 * (fst x - snd x)) (zip (butlast log_likelihoods) (tl log_likelihoods))"

definition delta_threshold :: real where
  "delta_threshold = 9.0"

definition best_grade :: "real list \<Rightarrow> int" where
  "best_grade log_likelihoods =
     (let msk = map (\<lambda>d. d \<ge> delta_threshold) (delta_loglike log_likelihoods)
      in if length (nonzero msk) = 0 then 0
         else int (last (nonzero msk)) + 1)"

definition min_grade :: int where
  "min_grade = 0"

definition max_grade :: int where
  "max_grade = 4"

text \<open>\<open>_fit_global_and_determine_optimum_grade(cnts, bins, exposure)\<close>.\<close>

definition fit_global_and_determine_optimum_grade ::
  "env \<Rightarrow> nat list \<Rightarrow> real list \<Rightarrow> real list \<Rightarrow> time_series \<Rightarrow> int \<times> time_series" where
  "fit_global_and_determine_optimum_grade e cnts bins exposure s =
     (let log_likelihoods =
            map (\<lambda>grade. snd (polyfit e bins cnts grade exposure)) [min_grade..max_grade]
      in (best_grade log_likelihoods,
          s\<lparr>trace := trace s @ [Entered ''_fit_global_and_determine_optimum_grade'']\<rparr>))"

text \<open>
  \<open>_unbinned_fit_global_and_determine_optimum_grade(events, exposure)\<close>; it reads the
  stored background intervals.
\<close>

definition unbinned_fit_global_and_determine_optimum_grade ::
  "env \<Rightarrow> real list \<Rightarrow> real \<Rightarrow> time_series \<Rightarrow> (error + int) \<times> time_series" where
  "unbinned_fit_global_and_determine_optimum_grade e events exposure s =
     (let s1 = s\<lparr>trace := trace s @ [Entered ''_unbinned_fit_global_and_determine_optimum_grade'']\<rparr>
      in case poly_intervals s1 of
           None \<Rightarrow> (Inl (AttributeError ''_poly_intervals''), s1)
         | Some ivs \<Rightarrow>
             (let t_start = start_times ivs;
                  t_stop = stop_times ivs;
                  log_likelihoods =
                    map (\<lambda>grade. snd (unbinned_polyfit e events grade t_start t_stop exposure))
                        [min_grade..max_grade]
              in (Inr (best_grade log_likelihoods), s1)))"

text \<open>
  The statistic of the spec, \<open>D k = 2 (L k - L (k + 1))\<close>, for the log-likelihoods
  \<open>L\<close> of the grades.
\<close>

definition lr_statistic :: "(nat \<Rightarrow> real) \<Rightarrow> nat \<Rightarrow> real" where
  "lr_statistic L k = 2 * (L k - L (k + 1))"

text \<open>
  The spec's chosen degree: \<open>g\<close> is the largest \<open>k + 1\<close> with \<open>k\<close> in 0..3 and
  \<open>D k\<close> at or over 9.0, and 0 when no \<open>D k\<close> is.
\<close>

definition is_selected_degree :: "(nat \<Rightarrow> real) \<Rightarrow> int \<Rightarrow> bool" where
  "is_selected_degree L g =
     ((g = 0 \<and> (\<forall>k<4. lr_statistic L k < 9)) \<or>
      (1 \<le> g \<and> g \<le> 4 \<and> lr_statistic L (nat g - 1) \<ge> 9 \<and>
       (\<forall>k<4. lr_statistic L k \<ge> 9 \<longrightarrow> int k + 1 \<le> g)))"

section \<open>Fitting\<close>

text \<open>
  The union of the masks of \<open>xs\<close> against every interval: \<open>all_bkg_masks[0]\<close>, then
  \<open>np.logical_or\<close> with each of the others. Reading element 0 of an empty list raises
  IndexError.
\<close>

definition interval_mask :: "real list \<Rightarrow> time_interval \<Rightarrow> bool list" where
  "interval_mask xs selection = map (\<lambda>t. t \<ge> fst selection \<and> t \<le> snd selection) xs"

definition union_mask :: "real list \<Rightarrow> time_interval_set \<Rightarrow> error + bool list" where
  "union_mask xs ivs =
     (case map (interval_mask xs) ivs of
        [] \<Rightarrow> Inl IndexError
      | m0 # ms \<Rightarrow> Inr (foldl logical_or m0 ms))"

text \<open>\<open>range(self._first_channel, self._n_channels + self._first_channel)\<close>.\<close>

definition channels :: "time_series \<Rightarrow> int list" where
  "channels s = [first_channel s..n_channels s + first_channel s - 1]"

text \<open>\<open>_fit_polynomials\<close>: the binned fit of every channel.\<close>

definition fit_polynomials :: "env \<Rightarrow> time_series \<Rightarrow> error option \<times> time_series" where
  "fit_polynomials e s0 =
     (let s1 = s0\<lparr>poly_fit_exists := True,
                  bin_type := Some ''Binned'',
                  fit_method := Some (binned_fit_method e),
                  trace := trace s0 @ [Entered ''_fit_polynomials'']\<rparr>
      in case poly_intervals s1 of
           None \<Rightarrow> (Some (AttributeError ''_poly_intervals''), s1)
         | Some ivs \<Rightarrow>
            (case union_mask (arrival_times s1) ivs of
               Inl err \<Rightarrow> (Some err, s1)
             | Inr poly_mask \<Rightarrow>
                (let total_poly_events = select (arrival_times s1) poly_mask;
                     total_poly_energies = select (energies s1) poly_mask;
                     these_bins = arange (start_time s1) (stop_time s1);
                     cnts = histogram total_poly_events these_bins;
                     mean_time = map (\<lambda>i. (these_bins ! i + these_bins ! (i + 1)) / 2)
                                     [0..<length these_bins - 1];
                     exposure_per_bin =
                       map (\<lambda>i. exposure_over_interval e (these_bins ! i) (these_bins ! (i + 1)))
                           [0..<length these_bins - 1]
                 in case union_mask mean_time ivs of
                      Inl err \<Rightarrow> (Some err, s1)
                    | Inr non_zero_mask \<Rightarrow>
                       (let (grade, s2) =
                              (if user_poly_order s1 = - 1
                               then fit_global_and_determine_optimum_grade e
                                      (select cnts non_zero_mask)
                                      (select mean_time non_zero_mask)
                                      (select exposure_per_bin non_zero_mask) s1
                               else (user_poly_order s1, s1));
                            s3 = s2\<lparr>optimal_polynomial_grade := Some grade\<rparr>;
                            polys =
                              map (\<lambda>channel.
                                     let channel_mask = map (\<lambda>c. c = channel) total_poly_energies;
                                         current_events = select total_poly_events channel_mask;
                                         chan_cnts = histogram current_events these_bins
                                     in fst (polyfit e (select mean_time non_zero_mask)
                                                       (select chan_cnts non_zero_mask)
                                                       grade
                                                       (select exposure_per_bin non_zero_mask)))
                                  (channels s3)
                        in (None, s3\<lparr>polynomials := Some polys\<rparr>)))))"

text \<open>
  \<open>_unbinned_fit_polynomials\<close>: the unbinned fit of every channel. (The source also
  sums the durations of the intervals into \<open>total_duration\<close>, which it never reads.)
\<close>

definition unbinned_fit_polynomials :: "env \<Rightarrow> time_series \<Rightarrow> error option \<times> time_series" where
  "unbinned_fit_polynomials e s0 =
     (let s1 = s0\<lparr>poly_fit_exists := True,
                  bin_type := Some ''Unbinned'',
                  fit_method := Some (unbinned_fit_method e),
                  trace := trace s0 @ [Entered ''_unbinned_fit_polynomials'']\<rparr>
      in case poly_intervals s1 of
           None \<Rightarrow> (Some (AttributeError ''_poly_intervals''), s1)
         | Some ivs \<Rightarrow>
            (let poly_exposure =
                   foldl (\<lambda>acc selection.
                            acc + exposure_over_interval e (fst selection) (snd selection)) 0 ivs
             in case union_mask (arrival_times s1) ivs of
                  Inl err \<Rightarrow> (Some err, s1)
                | Inr poly_mask \<Rightarrow>
                   (let total_poly_events = select (arrival_times s1) poly_mask;
                        total_poly_energies = select (energies s1) poly_mask
                    in case (if user_poly_order s1 = - 1
                             then unbinned_fit_global_and_determine_optimum_grade e
                                    total_poly_events poly_exposure s1
                             else (Inr (user_poly_order s1), s1)) of
                         (Inl err, s2) \<Rightarrow> (Some err, s2)
                       | (Inr grade, s2) \<Rightarrow>
                          (let s3 = s2\<lparr>optimal_polynomial_grade := Some grade\<rparr>;
                               t_start = start_times ivs;
                               t_stop = stop_times ivs;
                               polys =
                                 map (\<lambda>channel.
                                        let channel_mask = map (\<lambda>c. c = channel) total_poly_energies;
                                            current_events = select total_poly_events channel_mask
                                        in fst (unbinned_polyfit e current_events grade
                                                  t_start t_stop poly_exposure))
                                     (channels s3)
                           in (None, s3\<lparr>polynomials := Some polys\<rparr>)))))"

section \<open>Setting the background intervals\<close>

text \<open>
  The body of the loop over the parsed intervals: the locals \<open>t1\<close> and \<open>t2\<close> after the
  two clips, whether the \<open>continue\<close> branch was taken, and the warnings issued.
\<close>

definition check_interval ::
  "real \<Rightarrow> real \<Rightarrow> time_interval \<Rightarrow> (real \<times> real) \<times> bool \<times> warning list" where
  "check_interval start stop time_interval =
     (let t1 = fst time_interval;
          t2 = snd time_interval;
          w1 = (if t1 < start then [StartedBefore t1 t2 start start t2] else []);
          t1' = (if t1 < start then start else t1);
          w2 = (if t2 > stop then [EndedAfter t1' t2 stop t1' stop] else []);
          t2' = (if t2 > stop then stop else t2);
          dropped = (stop \<le> t1' \<or> t2' \<le> start);
          w3 = (if dropped then [OutsideDropped t1' t2'] else [])
      in ((t1', t2'), dropped, w1 @ w2 @ w3))"

text \<open>
  The \<open>unbinned\<close> keyword: taken from the options when present (it must be a bool), True
  otherwise.
\<close>

definition unbinned_option :: "(string \<rightharpoonup> pyvalue) \<Rightarrow> error + bool" where
  "unbinned_option options =
     (case options ''unbinned'' of
        Some v \<Rightarrow>
          (case v of
             PyBool b \<Rightarrow> Inr b
           | _ \<Rightarrow> Inl (AssertionError ''unbinned option must be True or False''))
      | None \<Rightarrow> Inr True)"

text \<open>
  \<open>set_polynomial_fit_interval(*time_intervals, **options)\<close>. The loop only warns: what it
  stores afterwards is the parsed set itself.
\<close>

definition set_polynomial_fit_interval ::
  "env \<Rightarrow> string list \<Rightarrow> (string \<rightharpoonup> pyvalue) \<Rightarrow> time_series \<Rightarrow> error option \<times> time_series" where
  "set_polynomial_fit_interval e time_interval_strings options s =
     (case unbinned_option options of
        Inl err \<Rightarrow> (Some err, s)
      | Inr unb \<Rightarrow>
         (case from_strings e time_interval_strings of
            Inl err \<Rightarrow> (Some err, s)
          | Inr parsed \<Rightarrow>
             (let warnings =
                    concat (map (\<lambda>time_interval.
                                   snd (snd (check_interval (start_time s) (stop_time s) time_interval)))
                                parsed);
                  s1 = s\<lparr>trace := trace s @ map Warned warnings\<rparr>;
                  s2 = s1\<lparr>poly_intervals := Some parsed\<rparr>;
                  (r, s3) = (if unb then unbinned_fit_polynomials e (s2\<lparr>unbinned := Some True\<rparr>)
                             else fit_polynomials e (s2\<lparr>unbinned := Some False\<rparr>))
              in case r of
                   Some err \<Rightarrow> (Some err, s3)
                 | None \<Rightarrow>
                    (let s4 = s3\<lparr>poly_fit_exists := True\<rparr>
                     in if time_selection_exists s4
                        then (case time_intervals s4 of
                                None \<Rightarrow> (Some (AttributeError ''to_string''), s4)
                              | Some tis \<Rightarrow>
                                  (let (r', s5) = set_active_time_intervals e
                                                    (split_comma (to_string e tis)) s4
                                   in (r', s5\<lparr>trace := trace s4 @
                                                 [Entered ''set_active_time_intervals'']\<rparr>)))
                        else (None, s4)))))"

text \<open>
  \<open>__set_poly_order(value)\<close>, the setter of the property \<open>poly_order\<close>. In the branch
  without a time selection the source builds a RuntimeError and does not raise it.
\<close>

definition set_poly_order :: "env \<Rightarrow> pyvalue \<Rightarrow> time_series \<Rightarrow> error option \<times> time_series" where
  "set_poly_order e v s =
     (case v of
        PyInt val \<Rightarrow>
          (if \<not> (- 1 \<le> val \<and> val \<le> 4)
           then (Some (AssertionError ''Polynomial order must be 0-4 or -1 to have it determined''), s)
           else
             (let s1 = s\<lparr>user_poly_order := val\<rparr>
              in if poly_fit_exists s1
                 then (if time_selection_exists s1
                       then (case poly_intervals s1 of
                               None \<Rightarrow> (Some (AttributeError ''_poly_intervals''), s1)
                             | Some ivs \<Rightarrow>
                                (case unbinned s1 of
                                   None \<Rightarrow> (Some (AttributeError ''_unbinned''), s1)
                                 | Some u \<Rightarrow>
                                     set_polynomial_fit_interval e
                                       (split_comma (to_string e ivs))
                                       [''unbinned'' \<mapsto> PyBool u] s1))
                       else (None, s1))
                 else (None, s1)))
      | _ \<Rightarrow> (Some (AssertionError ''Polynomial order must be integer''), s))"

text \<open>\<open>__get_poly_order\<close>, the getter of \<open>poly_order\<close>.\<close>

definition get_poly_order :: "time_series \<Rightarrow> error + int" where
  "get_poly_order s =
     (case optimal_polynomial_grade s of
        None \<Rightarrow> Inl (AttributeError ''_optimal_polynomial_grade'')
      | Some g \<Rightarrow> Inr g)"

section \<open>Reading the fit\<close>

text \<open>
  \<open>get_poly_info\<close>: the tables of coefficients and of their errors. Without a fit the
  source builds a RuntimeError, does not raise it, and the method returns \<open>None\<close>.
\<close>

definition get_poly_info :: "env \<Rightarrow> time_series \<Rightarrow> error + (real list list \<times> real list list) option" where
  "get_poly_info e s =
     (if poly_fit_exists s
      then (case polynomials s of
              None \<Rightarrow> Inl (AttributeError ''_polynomials'')
            | Some ps \<Rightarrow> Inr (Some (map coefficients ps, map (poly_error e) ps)))
      else Inr None)"

text \<open>
  The polynomials a call sums over: all of them under the default mask, those at the true
  entries of a mask of their number otherwise (numpy refuses a boolean index of another
  length).
\<close>

definition masked_polynomials :: "time_series \<Rightarrow> bool list option \<Rightarrow> error + polynomial list" where
  "masked_polynomials s msk =
     (case polynomials s of
        None \<Rightarrow> Inl (AttributeError ''_polynomials'')
      | Some ps \<Rightarrow>
         (let m = (case msk of None \<Rightarrow> replicate (length ps) True | Some m' \<Rightarrow> m')
          in if length m = length ps then Inr (select ps m) else Inl IndexError))"

definition get_total_poly_count ::
  "env \<Rightarrow> time_series \<Rightarrow> real \<Rightarrow> real \<Rightarrow> bool list option \<Rightarrow> error + real" where
  "get_total_poly_count e s start stop msk =
     (case masked_polynomials s msk of
        Inl err \<Rightarrow> Inl err
      | Inr ps \<Rightarrow> Inr (foldl (\<lambda>total_counts p. total_counts + integral e p start stop) 0 ps))"

definition get_total_poly_error ::
  "env \<Rightarrow> time_series \<Rightarrow> real \<Rightarrow> real \<Rightarrow> bool list option \<Rightarrow> error + real" where
  "get_total_poly_error e s start stop msk =
     (case masked_polynomials s msk of
        Inl err \<Rightarrow> Inl err
      | Inr ps \<Rightarrow>
          Inr (sqrt (foldl (\<lambda>total_counts p. total_counts + (integral_error e p start stop)\<^sup>2) 0 ps)))"

section \<open>Saving and restoring the fit\<close>

text \<open>
  An HDF5 file as the source uses it: the tables stored under the keys
  \<open>coefficients\<close> and \<open>covariance\<close>, and the metadata attached to the first. A cell of
  the coefficient table is a number or the fill value (\<open>None\<close>).
\<close>

record metadata =
  poly_order :: int
  poly_selections :: "(real \<times> real) list"
  meta_unbinned :: bool
  meta_fit_method :: "string option"

record hdf_store =
  coefficients_table :: "real option list list option"
  covariance_table :: "real list list list option"
  attrs_metadata :: "metadata option"

definition empty_store :: hdf_store where
  "empty_store = \<lparr>coefficients_table = None, covariance_table = None, attrs_metadata = None\<rparr>"

text \<open>The files by path, and the paths \<open>os.remove\<close> can delete.\<close>

record file_system =
  files :: "string \<rightharpoonup> hdf_store"
  removable :: "string \<Rightarrow> bool"

definition os_path_exists :: "file_system \<Rightarrow> string \<Rightarrow> bool" where
  "os_path_exists fsys path = (files fsys path \<noteq> None)"

text \<open>\<open>os.remove\<close>: \<open>None\<close> when it raises, the file system without the file otherwise.\<close>

definition os_remove :: "file_system \<Rightarrow> string \<Rightarrow> file_system option" where
  "os_remove fsys path =
     (if files fsys path \<noteq> None \<and> removable fsys path
      then Some (fsys\<lparr>files := (files fsys)(path := None)\<rparr>)
      else None)"

text \<open>\<open>HDFStore(path)\<close> opens the file, creating an empty one when there is none.\<close>

definition hdf_open :: "file_system \<Rightarrow> string \<Rightarrow> hdf_store" where
  "hdf_open fsys path = (case files fsys path of None \<Rightarrow> empty_store | Some st \<Rightarrow> st)"

definition hdf_write :: "file_system \<Rightarrow> string \<Rightarrow> hdf_store \<Rightarrow> file_system" where
  "hdf_write fsys path st = fsys\<lparr>files := (files fsys)(path \<mapsto> st)\<rparr>"

text \<open>
  The coefficient table as pandas holds it: every row as long as the longest, the missing
  cells of a shorter row filled (the source's comment in \<open>restore_fit\<close>: pandas stores the
  non-needed coefficients as nans).
\<close>

definition pad_rows :: "real list list \<Rightarrow> real option list list" where
  "pad_rows rows =
     (let width = foldr max (map length rows) 0
      in map (\<lambda>r. map Some r @ replicate (width - length r) None) rows)"

text \<open>\<open>np.isfinite\<close> on a cell, and \<open>coeff[np.isfinite(coeff)]\<close>.\<close>

definition isfinite :: "real option \<Rightarrow> bool" where
  "isfinite c = (c \<noteq> None)"

definition finite_cells :: "real option list \<Rightarrow> real list" where
  "finite_cells row = map the (filter isfinite row)"

definition already_exists_message :: "string \<Rightarrow> string" where
  "already_exists_message path = ''The file '' @ path @ '' already exists!''"

definition cannot_remove_message :: "string \<Rightarrow> string" where
  "cannot_remove_message path =
     ''The file '' @ path @
     '' already exists and cannot be removed (maybe you do not have permissions to do so?). ''"

text \<open>
  \<open>save_background(filename, overwrite=False)\<close>. The object is only read; the result is
  the exception raised, if any, and the file system.
\<close>

definition save_background ::
  "env \<Rightarrow> time_series \<Rightarrow> string \<Rightarrow> bool \<Rightarrow> file_system \<Rightarrow> error option \<times> file_system" where
  "save_background e s filename overwrite fsys =
     (let filename_h5 = fst (splitext e filename) @ ''.h5'';
          filename_sanitized = sanitize_filename e filename_h5
      in case (if os_path_exists fsys filename_sanitized
               then (if overwrite
                     then (case os_remove fsys filename_sanitized of
                             None \<Rightarrow> Inl (IOError (cannot_remove_message filename_sanitized))
                           | Some fsys' \<Rightarrow> Inr fsys')
                     else Inl (IOError (already_exists_message filename_sanitized)))
               else Inr fsys) of
           Inl err \<Rightarrow> (Some err, fsys)
         | Inr fsys1 \<Rightarrow>
            (let store0 = hdf_open fsys1 filename_sanitized;
                 fsys2 = hdf_write fsys1 filename_sanitized store0
             in if poly_fit_exists s
                then (case polynomials s of
                        None \<Rightarrow> (Some (AttributeError ''_polynomials''), fsys2)
                      | Some ps \<Rightarrow>
                         (let coeff = map coefficients ps;
                              err = map covariance_matrix ps;
                              store1 = store0\<lparr>coefficients_table := Some (pad_rows coeff),
                                              covariance_table := Some err\<rparr>;
                              fsys3 = hdf_write fsys1 filename_sanitized store1
                          in case optimal_polynomial_grade s of
                               None \<Rightarrow> (Some (AttributeError ''_optimal_polynomial_grade''), fsys3)
                             | Some g \<Rightarrow>
                                (case poly_intervals s of
                                   None \<Rightarrow> (Some (AttributeError ''_poly_intervals''), fsys3)
                                 | Some ivs \<Rightarrow>
                                    (case unbinned s of
                                       None \<Rightarrow> (Some (AttributeError ''_unbinned''), fsys3)
                                     | Some u \<Rightarrow>
                                        (None,
                                         hdf_write fsys1 filename_sanitized
                                           (store1\<lparr>attrs_metadata :=
                                              Some \<lparr>poly_order = g,
                                                    poly_selections = zip (start_times ivs) (stop_times ivs),
                                                    meta_unbinned = u,
                                                    meta_fit_method = fit_method s\<rparr>\<rparr>))))))
                else (Some (RuntimeError ''the polynomials have not been fit yet''), fsys2)))"

text \<open>
  The loop of \<open>restore_fit\<close> over the rows of the coefficient table, appending one
  polynomial per row; \<open>covariance.loc[i]\<close> raises KeyError past the end of the table.
\<close>

fun restore_polynomials ::
  "real option list list \<Rightarrow> real list list list \<Rightarrow> nat \<Rightarrow> polynomial list \<Rightarrow> error option \<times> polynomial list" where
  "restore_polynomials [] covariance i acc = (None, acc)"
| "restore_polynomials (row # rows) covariance i acc =
     (let coeff = finite_cells row
      in if i < length covariance
         then restore_polynomials rows covariance (i + 1)
                (acc @ [from_previous_fit coeff (covariance ! i)])
         else (Some (KeyError ''covariance''), acc))"

text \<open>
  \<open>restore_fit(filename)\<close>. \<open>poly_selections[:,0]\<close> raises IndexError on the array of an
  empty list of pairs, which has one dimension only.
\<close>

definition restore_fit ::
  "env \<Rightarrow> string \<Rightarrow> time_series \<Rightarrow> file_system \<Rightarrow> error option \<times> time_series \<times> file_system" where
  "restore_fit e filename s fsys =
     (let filename_sanitized = sanitize_filename e filename;
          store = hdf_open fsys filename_sanitized;
          fsys1 = hdf_write fsys filename_sanitized store
      in case coefficients_table store of
           None \<Rightarrow> (Some (KeyError ''coefficients''), s, fsys1)
         | Some coeffs \<Rightarrow>
            (case covariance_table store of
               None \<Rightarrow> (Some (KeyError ''covariance''), s, fsys1)
             | Some covariance \<Rightarrow>
                (case restore_polynomials coeffs covariance 0 [] of
                   (Some err, ps) \<Rightarrow> (Some err, s\<lparr>polynomials := Some ps\<rparr>, fsys1)
                 | (None, ps) \<Rightarrow>
                    (let s1 = s\<lparr>polynomials := Some ps\<rparr>
                     in case attrs_metadata store of
                          None \<Rightarrow> (Some (AttributeError ''metadata''), s1, fsys1)
                        | Some md \<Rightarrow>
                           (let s2 = s1\<lparr>optimal_polynomial_grade := Some (poly_order md)\<rparr>
                            in if poly_selections md = []
                               then (Some IndexError, s2, fsys1)
                               else
                                 (let s3 = s2\<lparr>poly_intervals :=
                                               Some (from_starts_and_stops
                                                       (map fst (poly_selections md))
                                                       (map snd (poly_selections md))),
                                             unbinned := Some (meta_unbinned md),
                                             bin_type := Some (if meta_unbinned md
                                                               then ''unbinned'' else ''binned''),
                                             fit_method := meta_fit_method md\<rparr>;
                                      s4 = s3\<lparr>poly_fit_exists := True\<rparr>
                                  in if time_selection_exists s4
                                     then (case time_intervals s4 of
                                             None \<Rightarrow> (Some (AttributeError ''to_string''), s4, fsys1)
                                           | Some tis \<Rightarrow>
                                               (let (r, s5) = set_active_time_intervals e
                                                                (split_comma (to_string e tis)) s4
                                                in (r, s5\<lparr>trace := trace s4 @
                                                         [Entered ''set_active_time_intervals'']\<rparr>,
                                                    fsys1)))
                                     else (None, s4, fsys1)))))))"

section \<open>A concrete instrument\<close>

text \<open>
  A small environment and event list to run the methods on: exposure is elapsed time,
  the regressors return a polynomial of the asked grade with log-likelihoods that stop
  improving after grade 2, and the interval strings are read from a table.
\<close>

definition example_log_like :: "int \<Rightarrow> real" where
  "example_log_like grade =
     (if grade = 0 then 100 else if grade = 1 then 90 else if grade = 2 then 80 else 79)"

definition example_from_strings :: "string list \<Rightarrow> error + time_interval_set" where
  "example_from_strings strs =
     (if strs = [] then Inr []
      else if strs = [''-10-50''] then Inr [(- 10, 50)]
      else if strs = [''0-50''] then Inr [(0, 50)]
      else if strs = [''-10-50'', ''200-300''] then Inr [(- 10, 50), (200, 300)]
      else Inl (RuntimeError ''cannot parse''))"

definition example_to_string :: "time_interval_set \<Rightarrow> string" where
  "example_to_string ivs =
     (if ivs = [(- 10, 50)] then ''-10-50''
      else if ivs = [(0, 50)] then ''0-50''
      else if ivs = [(- 10, 50), (200, 300)] then ''-10-50,200-300''
      else [])"

definition example_env :: env where
  "example_env =
     \<lparr>exposure_over_interval = (\<lambda>a b. b - a),
      polyfit = (\<lambda>x y grade exposure.
                   (\<lparr>coefficients = [real (length x), real_of_int grade],
                     covariance_matrix = [[1]]\<rparr>, example_log_like grade)),
      unbinned_polyfit = (\<lambda>events grade t_start t_stop exposure.
                   (\<lparr>coefficients = [real (length events), real_of_int grade],
                     covariance_matrix = [[exposure]]\<rparr>, example_log_like grade)),
      integral = (\<lambda>p a b. sum_list (coefficients p) * (b - a)),
      integral_error = (\<lambda>p a b. real (length (coefficients p)) * (b - a)),
      poly_error = (\<lambda>p. map (\<lambda>c. 1) (coefficients p)),
      from_strings = example_from_strings,
      to_string = example_to_string,
      set_active_time_intervals =
        (\<lambda>args s. (None, s\<lparr>time_selection_exists := True, time_intervals := Some [(0, 10)]\<rparr>)),
      binned_fit_method = ''bayes'',
      unbinned_fit_method = ''bayes'',
      sanitize_filename = (\<lambda>name. name),
      splitext = (\<lambda>name. (takeWhile (\<lambda>c. c \<noteq> CHR ''.'') name,
                            dropWhile (\<lambda>c. c \<noteq> CHR ''.'') name))\<rparr>"

text \<open>Four events in two channels over the data range [0, 100).\<close>

definition example_series :: time_series where
  "example_series = init 0 100 2 0 False [1, 20, 30, 60] [0, 1, 0, 0]"

text \<open>The example series after an unbinned fit on the interval 0-50, with no active selection.\<close>

definition example_fitted :: time_series where
  "example_fitted =
     snd (set_polynomial_fit_interval example_env [''0-50''] Map.empty example_series)"

text \<open>A file system with one removable and one write-protected file.\<close>

definition example_files :: file_system where
  "example_files =
     \<lparr>files = [''old.h5'' \<mapsto> empty_store, ''locked.h5'' \<mapsto> empty_store],
      removable = (\<lambda>path. path \<noteq> ''locked.h5'')\<rparr>"

section \<open>Notions of the specification\<close>

text \<open>
  The channels a total is taken over: all of them under the default mask, those the mask
  marks otherwise.
\<close>

definition selected_channels :: "nat \<Rightarrow> bool list option \<Rightarrow> nat set" where
  "selected_channels n msk =
     {i. i < n \<and> (case msk of None \<Rightarrow> True | Some m \<Rightarrow> m ! i)}"

text \<open>
  An error the class raises itself, with a message for the caller, as opposed to the
  IndexError, KeyError or AttributeError of an access that went wrong inside a method.
\<close>

definition descriptive :: "error \<Rightarrow> bool" where
  "descriptive err =
     (case err of
        RuntimeError msg \<Rightarrow> True
      | IOError msg \<Rightarrow> True
      | AssertionError msg \<Rightarrow> True
      | _ \<Rightarrow> False)"

text \<open>The events a call added to the log of the state it started from.\<close>

definition new_events :: "time_series \<Rightarrow> time_series \<Rightarrow> event list" where
  "new_events s s' = drop (length (trace s)) (trace s')"

text \<open>
  A fitted state: the attributes a successful fit leaves behind, on a set of background
  intervals that is not empty (on an empty one no fit succeeds).
\<close>

definition fitted :: "time_series \<Rightarrow> bool" where
  "fitted s =
     (poly_fit_exists s \<and> polynomials s \<noteq> None \<and> optimal_polynomial_grade s \<noteq> None
      \<and> unbinned s \<noteq> None \<and> poly_intervals s \<noteq> None \<and> poly_intervals s \<noteq> Some [])"

text \<open>
  The subclass's refresh of the active selection leaves the products of the fit alone.
\<close>

definition keeps_fit :: "env \<Rightarrow> bool" where
  "keeps_fit e =
     (\<forall>args s. let s' = snd (set_active_time_intervals e args s)
               in poly_fit_exists s' = poly_fit_exists s
                  \<and> polynomials s' = polynomials s
                  \<and> optimal_polynomial_grade s' = optimal_polynomial_grade s
                  \<and> poly_intervals s' = poly_intervals s
                  \<and> unbinned s' = unbinned s
                  \<and> fit_method s' = fit_method s)"

text \<open>
  The fitted example with an empty second channel, for which the regressor of the source
  returns the one-coefficient zero polynomial.
\<close>

definition example_ragged :: time_series where
  "example_ragged =
     example_fitted\<lparr>polynomials :=
       Some [\<lparr>coefficients = [2, 2], covariance_matrix = [[50]]\<rparr>,
             \<lparr>coefficients = [0], covariance_matrix = [[0]]\<rparr>]\<rparr>"

section \<open>Properties of grade selection\<close>

lemma all_less_4: "(\<forall>k<(4::nat). P k) = (P 0 \<and> P 1 \<and> P 2 \<and> P 3)"
proof -
  have "{..<(4::nat)} = {0,1,2,3}" by auto
  then have "(\<forall>k<(4::nat). P k) = (\<forall>k\<in>{0,1,2,3}. P k)" by (metis lessThan_iff)
  then show ?thesis by simp
qed

lemma grades_0_to_4: "[min_grade..max_grade] = [0, 1, 2, 3, 4]"
  by (simp add: min_grade_def max_grade_def upto_rec1)

lemma upt_4: "[0..<4] = [0, 1, 2, 3::nat]"
  by (simp add: upt_rec)

lemma best_grade_5:
  "best_grade [l0, l1, l2, l3, l4] =
     (if 2 * (l3 - l4) \<ge> 9 then 4
      else if 2 * (l2 - l3) \<ge> 9 then 3
      else if 2 * (l1 - l2) \<ge> 9 then 2
      else if 2 * (l0 - l1) \<ge> 9 then 1 else 0)"
  by (simp add: best_grade_def delta_loglike_def nonzero_def delta_threshold_def upt_4 Let_def)

lemma best_grade_selected:
  "is_selected_degree L (best_grade [L 0, L 1, L 2, L 3, L 4])"
  unfolding is_selected_degree_def all_less_4 lr_statistic_def best_grade_5
  by (simp add: not_le eval_nat_numeral)

text \<open>
  C3: for the log-likelihoods \<open>L 0 .. L 4\<close> of the fits at the grades 0 to 4, both
  selectors, the binned and the unbinned one, return the largest \<open>k + 1\<close> with \<open>k\<close> in
  0..3 and \<open>2 (L k - L (k + 1)) \<ge> 9.0\<close>, and 0 when no such \<open>k\<close> exists. (The unbinned
  selector reads the stored background intervals, so they must have been set.)
\<close>

theorem selected_grade_is_largest_significant:
  "is_selected_degree (\<lambda>k. snd (polyfit e bins cnts (int k) exposure))
      (fst (fit_global_and_determine_optimum_grade e cnts bins exposure s))
   \<and> (poly_intervals s = Some ivs \<longrightarrow>
       (\<exists>g. fst (unbinned_fit_global_and_determine_optimum_grade e events exposure' s) = Inr g
          \<and> is_selected_degree
              (\<lambda>k. snd (unbinned_polyfit e events (int k) (start_times ivs) (stop_times ivs) exposure'))
              g))"
proof -
  let ?L = "\<lambda>k. snd (polyfit e bins cnts (int k) exposure)"
  let ?U = "\<lambda>k. snd (unbinned_polyfit e events (int k) (start_times ivs) (stop_times ivs) exposure')"
  have b: "fst (fit_global_and_determine_optimum_grade e cnts bins exposure s)
             = best_grade [?L 0, ?L 1, ?L 2, ?L 3, ?L 4]"
    by (simp add: fit_global_and_determine_optimum_grade_def grades_0_to_4)
  have u: "fst (unbinned_fit_global_and_determine_optimum_grade e events exposure' s)
             = Inr (best_grade [?U 0, ?U 1, ?U 2, ?U 3, ?U 4])"
    if "poly_intervals s = Some ivs"
    using that
    by (simp add: unbinned_fit_global_and_determine_optimum_grade_def grades_0_to_4 Let_def)
  show ?thesis
    using b u best_grade_selected [of ?L] best_grade_selected [of ?U] by simp
qed

theorem selected_grade_is_largest_significant_witness:
  "poly_intervals (example_series\<lparr>poly_intervals := Some [(0, 50)]\<rparr>) = Some [(0, 50)]
   \<and> fst (fit_global_and_determine_optimum_grade example_env [3, 1] [0.5, 1.5] [1, 1]
            (example_series\<lparr>poly_intervals := Some [(0, 50)]\<rparr>)) = 2
   \<and> is_selected_degree (\<lambda>k. snd (polyfit example_env [0.5, 1.5] [3, 1] (int k) [1, 1])) 2
   \<and> fst (unbinned_fit_global_and_determine_optimum_grade example_env [1, 20] 50
            (example_series\<lparr>poly_intervals := Some [(0, 50)]\<rparr>)) = Inr 2
   \<and> is_selected_degree
        (\<lambda>k. snd (unbinned_polyfit example_env [1, 20] (int k) (start_times [(0, 50)])
                     (stop_times [(0, 50)]) 50)) 2"
proof -
  let ?s = "example_series\<lparr>poly_intervals := Some [(0, 50)]\<rparr>"
  have h: "poly_intervals ?s = Some [(0, 50)]" by simp
  have b: "fst (fit_global_and_determine_optimum_grade example_env [3, 1] [0.5, 1.5] [1, 1] ?s) = 2"
    by (simp add: fit_global_and_determine_optimum_grade_def grades_0_to_4 best_grade_5
        example_env_def example_log_like_def)
  have u: "fst (unbinned_fit_global_and_determine_optimum_grade example_env [1, 20] 50 ?s) = Inr 2"
    by (simp add: unbinned_fit_global_and_determine_optimum_grade_def grades_0_to_4 best_grade_5
        example_env_def example_log_like_def Let_def)
  show ?thesis
    using selected_grade_is_largest_significant
            [of example_env "[0.5, 1.5]" "[3, 1]" "[1, 1]" ?s "[(0, 50)]" "[1, 20]" 50] h b u
    by simp
qed

section \<open>Evaluating the example\<close>

lemmas example_defs = example_env_def example_series_def init_def example_from_strings_def
  example_to_string_def example_log_like_def

lemmas fit_defs = set_polynomial_fit_interval_def unbinned_option_def check_interval_def
  unbinned_fit_polynomials_def fit_polynomials_def union_mask_def interval_mask_def
  select_def logical_or_def channels_def start_times_def stop_times_def
  unbinned_fit_global_and_determine_optimum_grade_def fit_global_and_determine_optimum_grade_def

lemma example_unbinned_fit:
  "set_polynomial_fit_interval example_env [''0-50''] Map.empty example_series =
     (None, example_series\<lparr>
        poly_fit_exists := True, bin_type := Some ''Unbinned'', fit_method := Some ''bayes'',
        poly_intervals := Some [(0, 50)],
        polynomials := Some [\<lparr>coefficients = [2, 2], covariance_matrix = [[50]]\<rparr>,
                             \<lparr>coefficients = [1, 2], covariance_matrix = [[50]]\<rparr>],
        optimal_polynomial_grade := Some 2, unbinned := Some True,
        trace := [Entered ''_unbinned_fit_polynomials'',
                  Entered ''_unbinned_fit_global_and_determine_optimum_grade'']\<rparr>)"
  by (simp add: fit_defs example_defs Let_def grades_0_to_4 best_grade_5 upto_rec1)

lemma example_fitted_eq:
  "example_fitted =
     \<lparr>verbose = False, n_channels = 2, first_channel = 0, start_time = 0, stop_time = 100,
      arrival_times = [1, 20, 30, 60], energies = [0, 1, 0, 0],
      time_intervals = None, user_poly_order = - 1,
      time_selection_exists = False, poly_fit_exists = True,
      bin_type = Some ''Unbinned'', fit_method = Some ''bayes'',
      poly_intervals = Some [(0, 50)],
      polynomials = Some [\<lparr>coefficients = [2, 2], covariance_matrix = [[50]]\<rparr>,
                          \<lparr>coefficients = [1, 2], covariance_matrix = [[50]]\<rparr>],
      optimal_polynomial_grade = Some 2, unbinned = Some True,
      trace = [Entered ''_unbinned_fit_polynomials'',
               Entered ''_unbinned_fit_global_and_determine_optimum_grade'']\<rparr>"
  by (simp add: example_fitted_def example_unbinned_fit) (simp add: example_series_def init_def)

section \<open>Properties of the totals\<close>

lemma select_as_indices:
  "length m = length ps \<Longrightarrow> select ps m = map ((!) ps) (filter ((!) m) [0..<length ps])"
proof (induction m ps rule: list_induct2)
  case Nil
  then show ?case by (simp add: select_def)
next
  case (Cons b m p ps)
  have "[0..<length (p # ps)] = 0 # map Suc [0..<length ps]"
    by (simp add: upt_conv_Cons map_Suc_upt del: upt_Suc)
  then show ?case
    using Cons.IH by (simp add: select_def filter_map comp_def del: upt_Suc)
qed

lemma sum_list_select:
  assumes "length m = length ps"
  shows "sum_list (map f (select ps m)) = (\<Sum>i | i < length ps \<and> m ! i. f (ps ! i))"
proof -
  have d: "distinct (filter ((!) m) [0..<length ps])" by simp
  have "sum_list (map f (select ps m))
          = sum_list (map (\<lambda>i. f (ps ! i)) (filter ((!) m) [0..<length ps]))"
    by (simp add: select_as_indices [OF assms] comp_def)
  also have "\<dots> = sum (\<lambda>i. f (ps ! i)) (set (filter ((!) m) [0..<length ps]))"
    using d by (rule sum_list_distinct_conv_sum_set)
  also have "set (filter ((!) m) [0..<length ps]) = {i. i < length ps \<and> m ! i}"
    by auto
  finally show ?thesis .
qed

lemma select_all: "select ps (replicate (length ps) True) = ps"
  by (induction ps) (simp_all add: select_def)

lemma foldl_plus: "foldl (\<lambda>t p. t + f p) a ps = (a::real) + sum_list (map f ps)"
  by (induction ps arbitrary: a) simp_all

lemma masked_polynomials_sum:
  assumes "polynomials s = Some ps"
    and "msk = None \<or> (\<exists>m. msk = Some m \<and> length m = length ps)"
  shows "\<exists>qs. masked_polynomials s msk = Inr qs
           \<and> (\<forall>f. sum_list (map f qs) = (\<Sum>i\<in>selected_channels (length ps) msk. (f (ps ! i) :: real)))"
proof (cases msk)
  case None
  have "sum_list (map f ps) = (\<Sum>i | i < length ps. (f (ps ! i) :: real))" for f
  proof -
    have "sum_list (map f (select ps (replicate (length ps) True)))
            = (\<Sum>i | i < length ps \<and> replicate (length ps) True ! i. f (ps ! i))"
      by (rule sum_list_select) simp
    moreover have "{i. i < length ps \<and> replicate (length ps) True ! i} = {i. i < length ps}"
      by auto
    ultimately show ?thesis by (simp add: select_all)
  qed
  then show ?thesis
    using assms None by (simp add: masked_polynomials_def selected_channels_def select_all)
next
  case (Some m)
  then have len: "length m = length ps" using assms by simp
  show ?thesis
    using assms Some len
    by (simp add: masked_polynomials_def selected_channels_def sum_list_select [OF len])
qed

text \<open>
  C7: once the polynomials exist, for every interval \<open>[a, b]\<close> and every channel mask
  (none given: all channels; one given: as long as the list of polynomials),
  \<open>get_total_poly_count\<close> returns the sum over the selected channels of the channel's
  \<open>integral(a, b)\<close>, and \<open>get_total_poly_error\<close> the square root of the sum over the
  selected channels of the squared \<open>integral_error(a, b)\<close>.
\<close>

theorem totals_sum_over_selected_channels:
  assumes "polynomials s = Some ps"
    and "msk = None \<or> (\<exists>m. msk = Some m \<and> length m = length ps)"
  shows "get_total_poly_count e s a b msk
           = Inr (\<Sum>i\<in>selected_channels (length ps) msk. integral e (ps ! i) a b)
       \<and> get_total_poly_error e s a b msk
           = Inr (sqrt (\<Sum>i\<in>selected_channels (length ps) msk. (integral_error e (ps ! i) a b)\<^sup>2))"
proof -
  obtain qs where q: "masked_polynomials s msk = Inr qs"
    and sums: "\<And>f. sum_list (map f qs) = (\<Sum>i\<in>selected_channels (length ps) msk. (f (ps ! i) :: real))"
    using masked_polynomials_sum [OF assms] by blast
  show ?thesis
    using sums [of "\<lambda>p. integral e p a b"] sums [of "\<lambda>p. (integral_error e p a b)\<^sup>2"]
    by (simp add: get_total_poly_count_def get_total_poly_error_def q foldl_plus)
qed

theorem totals_sum_over_selected_channels_witness:
  "get_total_poly_count example_env example_fitted 0 10 (Some [False, True]) = Inr 30
   \<and> get_total_poly_count example_env example_fitted 0 10 (Some [False, True])
       = Inr (\<Sum>i\<in>selected_channels 2 (Some [False, True]).
                integral example_env
                  ([\<lparr>coefficients = [2, 2], covariance_matrix = [[50]]\<rparr>,
                    \<lparr>coefficients = [1, 2], covariance_matrix = [[50]]\<rparr>] ! i) 0 10)
   \<and> get_total_poly_error example_env example_fitted 0 10 (Some [False, True]) = Inr 20
   \<and> get_total_poly_error example_env example_fitted 0 10 (Some [False, True])
       = Inr (sqrt (\<Sum>i\<in>selected_channels 2 (Some [False, True]).
                (integral_error example_env
                  ([\<lparr>coefficients = [2, 2], covariance_matrix = [[50]]\<rparr>,
                    \<lparr>coefficients = [1, 2], covariance_matrix = [[50]]\<rparr>] ! i) 0 10)\<^sup>2))
   \<and> get_total_poly_count example_env example_fitted 0 10 None = Inr 70"
proof -
  let ?ps = "[\<lparr>coefficients = [2, 2], covariance_matrix = [[50]]\<rparr>,
              \<lparr>coefficients = [1, 2], covariance_matrix = [[50::real]]\<rparr>]"
  have p: "polynomials example_fitted = Some ?ps"
    by (simp add: example_fitted_eq)
  have m: "Some [False, True] = None
             \<or> (\<exists>m. Some [False, True] = Some m \<and> length m = length ?ps)"
    by simp
  have sq: "sqrt 400 = 20"
    using real_sqrt_abs [of 20] by simp
  have c: "get_total_poly_count example_env example_fitted 0 10 (Some [False, True]) = Inr 30"
    by (simp add: get_total_poly_count_def masked_polynomials_def p select_def example_env_def)
  have c': "get_total_poly_count example_env example_fitted 0 10 None = Inr 70"
    by (simp add: get_total_poly_count_def masked_polynomials_def p select_def example_env_def)
  have r: "get_total_poly_error example_env example_fitted 0 10 (Some [False, True]) = Inr 20"
    by (simp add: get_total_poly_error_def masked_polynomials_def p select_def example_env_def sq)
  have len: "length ?ps = 2" by simp
  note t = totals_sum_over_selected_channels [OF p m, of example_env 0 10, unfolded len]
  show ?thesis
    using t c c' r by blast
qed

section \<open>The stored background intervals\<close>

text \<open>
  C1: the claim is that an interval starting before \<open>start_time\<close> is stored clipped and
  an interval wholly outside the data is not stored. On data over [0, 100), the call with
  the intervals -10-50 and 200-300 computes the clipped bounds (0, 50) and finds the
  second interval outside, warns of both, and stores the two intervals as they were
  given: the loop assigns to its locals only.
\<close>

theorem unclipped_intervals_are_stored:
  "check_interval 0 100 (- 10, 50) = ((0, 50), False, [StartedBefore (- 10) 50 0 0 50])
   \<and> check_interval 0 100 (200, 300) = ((200, 100), True, [EndedAfter 200 300 100 200 100,
                                                             OutsideDropped 200 100])
   \<and> fst (set_polynomial_fit_interval example_env [''-10-50'', ''200-300''] Map.empty
            example_series) = None
   \<and> poly_intervals (snd (set_polynomial_fit_interval example_env [''-10-50'', ''200-300'']
                             Map.empty example_series))
       = Some [(- 10, 50), (200, 300)]
   \<and> poly_intervals (snd (set_polynomial_fit_interval example_env [''-10-50''] Map.empty
                             example_series))
       = Some [(- 10, 50)]"
  by (simp add: fit_defs example_defs Let_def grades_0_to_4 best_grade_5 upto_rec1)

section \<open>Reading before a fit\<close>

text \<open>
  C4: the claim is that reading fit products before any fit raises. On a fresh object
  \<open>get_poly_info\<close> returns \<open>None\<close> and raises nothing (its RuntimeError is built and
  not raised); the two totals do raise, the AttributeError of the attribute
  \<open>_polynomials\<close> that does not exist yet.
\<close>

theorem get_poly_info_without_fit_returns_none:
  "\<not> poly_fit_exists example_series
   \<and> get_poly_info example_env example_series = Inr None
   \<and> get_total_poly_count example_env example_series 0 10 None
       = Inl (AttributeError ''_polynomials'')
   \<and> get_total_poly_error example_env example_series 0 10 None
       = Inl (AttributeError ''_polynomials'')"
  by (simp add: get_poly_info_def get_total_poly_count_def get_total_poly_error_def
      masked_polynomials_def example_series_def init_def)

section \<open>Changing the polynomial order\<close>

text \<open>
  C5: the claim is that a new order on a fitted object refits it. On the example after its
  fit (grade 2 chosen, no active selection) setting the order to 1 raises nothing, enters
  no fit and leaves the polynomials and the grade 2 in place: only the user's order
  changes (the RuntimeError of that branch is built and not raised). With an active
  selection the same call refits, unbinned as before and on the stored interval, at
  grade 1.
\<close>

theorem new_order_without_selection_does_not_refit:
  "poly_fit_exists example_fitted
   \<and> \<not> time_selection_exists example_fitted
   \<and> set_poly_order example_env (PyInt 1) example_fitted
       = (None, example_fitted\<lparr>user_poly_order := 1\<rparr>)
   \<and> optimal_polynomial_grade (snd (set_poly_order example_env (PyInt 1) example_fitted))
       = Some 2
   \<and> new_events example_fitted (snd (set_poly_order example_env (PyInt 1) example_fitted)) = []
   \<and> optimal_polynomial_grade
        (snd (set_poly_order example_env (PyInt 1)
               (example_fitted\<lparr>time_selection_exists := True,
                                time_intervals := Some [(0, 10)]\<rparr>)))
       = Some 1
   \<and> new_events example_fitted
        (snd (set_poly_order example_env (PyInt 1)
               (example_fitted\<lparr>time_selection_exists := True,
                                time_intervals := Some [(0, 10)]\<rparr>)))
       = [Entered ''_unbinned_fit_polynomials'', Entered ''set_active_time_intervals'']"
  by (simp add: set_poly_order_def example_fitted_eq new_events_def fit_defs
      example_env_def example_from_strings_def example_to_string_def Let_def)

section \<open>Properties of the fits\<close>

lemma union_mask_empty: "union_mask xs [] = Inl IndexError"
  by (simp add: union_mask_def)

lemma union_mask_nonempty: "ivs \<noteq> [] \<Longrightarrow> \<exists>m. union_mask xs ivs = Inr m"
  by (cases ivs) (simp_all add: union_mask_def)

lemma fit_polynomials_empty:
  "poly_intervals s = Some [] \<Longrightarrow>
     fit_polynomials e s =
       (Some IndexError,
        s\<lparr>poly_fit_exists := True, bin_type := Some ''Binned'',
          fit_method := Some (binned_fit_method e),
          trace := trace s @ [Entered ''_fit_polynomials'']\<rparr>)"
  by (simp add: fit_polynomials_def union_mask_empty Let_def)

lemma unbinned_fit_polynomials_empty:
  "poly_intervals s = Some [] \<Longrightarrow>
     unbinned_fit_polynomials e s =
       (Some IndexError,
        s\<lparr>poly_fit_exists := True, bin_type := Some ''Unbinned'',
          fit_method := Some (unbinned_fit_method e),
          trace := trace s @ [Entered ''_unbinned_fit_polynomials'']\<rparr>)"
  by (simp add: unbinned_fit_polynomials_def union_mask_empty Let_def)

lemma fit_polynomials_explicit:
  assumes "poly_intervals s = Some ivs" and "ivs \<noteq> []" and "user_poly_order s \<noteq> - 1"
  shows "\<exists>x ys z. fit_polynomials e s =
           (None,
            s\<lparr>poly_fit_exists := True, bin_type := Some ''Binned'',
              fit_method := Some (binned_fit_method e),
              trace := trace s @ [Entered ''_fit_polynomials''],
              optimal_polynomial_grade := Some (user_poly_order s),
              polynomials := Some (map (\<lambda>channel. fst (polyfit e x (ys channel) (user_poly_order s) z))
                                       (channels s))\<rparr>)"
proof -
  obtain m1 where m1: "union_mask (arrival_times s) ivs = Inr m1"
    using union_mask_nonempty [OF assms(2)] by blast
  let ?bins = "arange (start_time s) (stop_time s)"
  let ?mean = "map (\<lambda>i. (?bins ! i + ?bins ! (i + 1)) / 2) [0..<length ?bins - 1]"
  obtain m2 where m2: "union_mask ?mean ivs = Inr m2"
    using union_mask_nonempty [OF assms(2)] by blast
  show ?thesis
    using assms(1,3) m1 m2
    by (simp add: fit_polynomials_def Let_def channels_def) ((rule exI)+, rule refl)
qed

lemma unbinned_fit_polynomials_explicit:
  assumes "poly_intervals s = Some ivs" and "ivs \<noteq> []" and "user_poly_order s \<noteq> - 1"
  shows "\<exists>evs x. unbinned_fit_polynomials e s =
           (None,
            s\<lparr>poly_fit_exists := True, bin_type := Some ''Unbinned'',
              fit_method := Some (unbinned_fit_method e),
              trace := trace s @ [Entered ''_unbinned_fit_polynomials''],
              optimal_polynomial_grade := Some (user_poly_order s),
              polynomials := Some (map (\<lambda>channel. fst (unbinned_polyfit e (evs channel)
                                            (user_poly_order s) (start_times ivs) (stop_times ivs) x))
                                       (channels s))\<rparr>)"
proof -
  obtain m1 where m1: "union_mask (arrival_times s) ivs = Inr m1"
    using union_mask_nonempty [OF assms(2)] by blast
  show ?thesis
    using assms(1,3) m1
    by (simp add: unbinned_fit_polynomials_def Let_def channels_def) ((rule exI)+, rule refl)
qed

lemma fit_polynomials_auto_trace:
  assumes "poly_intervals s = Some ivs" and "ivs \<noteq> []" and "user_poly_order s = - 1"
  shows "fst (fit_polynomials e s) = None
       \<and> trace (snd (fit_polynomials e s)) =
           trace s @ [Entered ''_fit_polynomials'', Entered ''_fit_global_and_determine_optimum_grade'']"
proof -
  obtain m1 where m1: "union_mask (arrival_times s) ivs = Inr m1"
    using union_mask_nonempty [OF assms(2)] by blast
  let ?bins = "arange (start_time s) (stop_time s)"
  let ?mean = "map (\<lambda>i. (?bins ! i + ?bins ! (i + 1)) / 2) [0..<length ?bins - 1]"
  obtain m2 where m2: "union_mask ?mean ivs = Inr m2"
    using union_mask_nonempty [OF assms(2)] by blast
  show ?thesis
    using assms(1,3) m1 m2
    by (simp add: fit_polynomials_def fit_global_and_determine_optimum_grade_def Let_def)
qed

lemma unbinned_fit_polynomials_auto_trace:
  assumes "poly_intervals s = Some ivs" and "ivs \<noteq> []" and "user_poly_order s = - 1"
  shows "fst (unbinned_fit_polynomials e s) = None
       \<and> trace (snd (unbinned_fit_polynomials e s)) =
           trace s @ [Entered ''_unbinned_fit_polynomials'',
                      Entered ''_unbinned_fit_global_and_determine_optimum_grade'']"
proof -
  obtain m1 where m1: "union_mask (arrival_times s) ivs = Inr m1"
    using union_mask_nonempty [OF assms(2)] by blast
  show ?thesis
    using assms(1,3) m1
    by (simp add: unbinned_fit_polynomials_def
        unbinned_fit_global_and_determine_optimum_grade_def Let_def)
qed

text \<open>
  C6, as the code has it: with an empty set of background intervals the binned and the
  unbinned fit both stop at the read of element 0 of the empty list of masks, an
  IndexError, which is not an error with a message of the class's own; no polynomial is
  installed. A call of \<open>set_polynomial_fit_interval\<close> whose strings parse to the empty
  set ends the same way.
\<close>

theorem empty_interval_set_raises_index_error:
  "(poly_intervals s = Some [] \<longrightarrow>
       fst (fit_polynomials e s) = Some IndexError
     \<and> polynomials (snd (fit_polynomials e s)) = polynomials s
     \<and> fst (unbinned_fit_polynomials e s) = Some IndexError
     \<and> polynomials (snd (unbinned_fit_polynomials e s)) = polynomials s)
   \<and> (from_strings e strs = Inr [] \<and> unbinned_option options = Inr b \<longrightarrow>
       fst (set_polynomial_fit_interval e strs options s) = Some IndexError
     \<and> polynomials (snd (set_polynomial_fit_interval e strs options s)) = polynomials s)
   \<and> \<not> descriptive IndexError"
proof -
  have fits: "fst (fit_polynomials e s') = Some IndexError
     \<and> polynomials (snd (fit_polynomials e s')) = polynomials s'
     \<and> fst (unbinned_fit_polynomials e s') = Some IndexError
     \<and> polynomials (snd (unbinned_fit_polynomials e s')) = polynomials s'"
    if "poly_intervals s' = Some []" for s'
    using that by (simp add: fit_polynomials_empty unbinned_fit_polynomials_empty)
  have entry: "fst (set_polynomial_fit_interval e strs options s) = Some IndexError
     \<and> polynomials (snd (set_polynomial_fit_interval e strs options s)) = polynomials s"
    if "from_strings e strs = Inr []" and "unbinned_option options = Inr b"
    using that
    by (cases b)
       (simp_all add: set_polynomial_fit_interval_def fit_polynomials_empty
          unbinned_fit_polynomials_empty)
  show ?thesis
    using fits [of s] entry by (simp add: descriptive_def)
qed

theorem empty_interval_set_raises_index_error_witness:
  "poly_intervals (example_series\<lparr>poly_intervals := Some []\<rparr>) = Some []
   \<and> fst (fit_polynomials example_env (example_series\<lparr>poly_intervals := Some []\<rparr>))
       = Some IndexError
   \<and> fst (unbinned_fit_polynomials example_env (example_series\<lparr>poly_intervals := Some []\<rparr>))
       = Some IndexError
   \<and> from_strings example_env [] = Inr []
   \<and> unbinned_option Map.empty = Inr True
   \<and> fst (set_polynomial_fit_interval example_env [] Map.empty
            (example_series\<lparr>poly_intervals := Some []\<rparr>)) = Some IndexError
   \<and> polynomials (snd (set_polynomial_fit_interval example_env [] Map.empty
            (example_series\<lparr>poly_intervals := Some []\<rparr>))) = None"
proof -
  let ?s = "example_series\<lparr>poly_intervals := Some []\<rparr>"
  have h1: "poly_intervals ?s = Some []" by simp
  have h2: "from_strings example_env [] = Inr []"
    by (simp add: example_env_def example_from_strings_def)
  have h3: "unbinned_option Map.empty = Inr True"
    by (simp add: unbinned_option_def)
  have p: "polynomials ?s = None"
    by (simp add: example_series_def init_def)
  show ?thesis
    using empty_interval_set_raises_index_error
            [of ?s example_env "[]" Map.empty True] h1 h2 h3 p
    by simp
qed

text \<open>
  C6, as the claim has it, fails on the example with no background interval: neither fit
  ends in an error with a message of the class's own.
\<close>

theorem empty_interval_set_error_is_not_descriptive:
  "\<not> (\<exists>err. fst (fit_polynomials example_env (example_series\<lparr>poly_intervals := Some []\<rparr>))
                 = Some err \<and> descriptive err)
   \<and> \<not> (\<exists>err. fst (unbinned_fit_polynomials example_env
                       (example_series\<lparr>poly_intervals := Some []\<rparr>))
                 = Some err \<and> descriptive err)
   \<and> fst (set_polynomial_fit_interval example_env [] Map.empty example_series)
       = Some IndexError"
  by (simp add: fit_defs descriptive_def example_defs Let_def)

text \<open>
  C9: on a non-empty set of background intervals, a fit (binned or unbinned) with a stored
  order \<open>d\<close> in 0..4 succeeds, records \<open>d\<close> as the grade, fits every channel at grade
  \<open>d\<close>, and enters no routine but itself; the grade-selection routine is entered exactly
  when the stored order is -1.
\<close>

theorem explicit_degree_skips_grade_selection:
  assumes "poly_intervals s = Some ivs" and "ivs \<noteq> []"
  shows "(0 \<le> user_poly_order s \<and> user_poly_order s \<le> 4 \<longrightarrow>
            fst (fit_polynomials e s) = None
          \<and> optimal_polynomial_grade (snd (fit_polynomials e s)) = Some (user_poly_order s)
          \<and> (\<exists>x ys z. polynomials (snd (fit_polynomials e s))
                 = Some (map (\<lambda>channel. fst (polyfit e x (ys channel) (user_poly_order s) z))
                             (channels s)))
          \<and> new_events s (snd (fit_polynomials e s)) = [Entered ''_fit_polynomials'']
          \<and> fst (unbinned_fit_polynomials e s) = None
          \<and> optimal_polynomial_grade (snd (unbinned_fit_polynomials e s))
              = Some (user_poly_order s)
          \<and> (\<exists>evs x. polynomials (snd (unbinned_fit_polynomials e s))
                 = Some (map (\<lambda>channel. fst (unbinned_polyfit e (evs channel) (user_poly_order s)
                                                (start_times ivs) (stop_times ivs) x))
                             (channels s)))
          \<and> new_events s (snd (unbinned_fit_polynomials e s))
              = [Entered ''_unbinned_fit_polynomials''])
       \<and> (Entered ''_fit_global_and_determine_optimum_grade''
              \<in> set (new_events s (snd (fit_polynomials e s)))
            \<longleftrightarrow> user_poly_order s = - 1)
       \<and> (Entered ''_unbinned_fit_global_and_determine_optimum_grade''
              \<in> set (new_events s (snd (unbinned_fit_polynomials e s)))
            \<longleftrightarrow> user_poly_order s = - 1)"
proof (cases "user_poly_order s = - 1")
  case True
  show ?thesis
    using True fit_polynomials_auto_trace [OF assms True, of e]
      unbinned_fit_polynomials_auto_trace [OF assms True, of e]
    by (simp add: new_events_def)
next
  case False
  obtain x ys z where b: "fit_polynomials e s =
           (None,
            s\<lparr>poly_fit_exists := True, bin_type := Some ''Binned'',
              fit_method := Some (binned_fit_method e),
              trace := trace s @ [Entered ''_fit_polynomials''],
              optimal_polynomial_grade := Some (user_poly_order s),
              polynomials := Some (map (\<lambda>channel. fst (polyfit e x (ys channel) (user_poly_order s) z))
                                       (channels s))\<rparr>)"
    using fit_polynomials_explicit [OF assms False, of e] by blast
  obtain evs x' where u: "unbinned_fit_polynomials e s =
           (None,
            s\<lparr>poly_fit_exists := True, bin_type := Some ''Unbinned'',
              fit_method := Some (unbinned_fit_method e),
              trace := trace s @ [Entered ''_unbinned_fit_polynomials''],
              optimal_polynomial_grade := Some (user_poly_order s),
              polynomials := Some (map (\<lambda>channel. fst (unbinned_polyfit e (evs channel)
                                            (user_poly_order s) (start_times ivs) (stop_times ivs) x'))
                                       (channels s))\<rparr>)"
    using unbinned_fit_polynomials_explicit [OF assms False, of e] by blast
  have bx: "\<exists>x ys z. polynomials (snd (fit_polynomials e s))
                 = Some (map (\<lambda>channel. fst (polyfit e x (ys channel) (user_poly_order s) z))
                             (channels s))"
    by (rule exI [of _ x], rule exI [of _ ys], rule exI [of _ z]) (simp add: b)
  have ux: "\<exists>evs x. polynomials (snd (unbinned_fit_polynomials e s))
                 = Some (map (\<lambda>channel. fst (unbinned_polyfit e (evs channel) (user_poly_order s)
                                                (start_times ivs) (stop_times ivs) x))
                             (channels s))"
    by (rule exI [of _ evs], rule exI [of _ x']) (simp add: u)
  show ?thesis
    using False bx ux by (simp add: b u new_events_def)
qed

theorem explicit_degree_skips_grade_selection_witness:
  "poly_intervals (example_series\<lparr>poly_intervals := Some [(0, 50)], user_poly_order := 3\<rparr>)
     = Some [(0, 50)]
   \<and> [(0, 50)] \<noteq> ([] :: time_interval_set)
   \<and> optimal_polynomial_grade
        (snd (unbinned_fit_polynomials example_env
               (example_series\<lparr>poly_intervals := Some [(0, 50)], user_poly_order := 3\<rparr>)))
       = Some 3
   \<and> new_events (example_series\<lparr>poly_intervals := Some [(0, 50)], user_poly_order := 3\<rparr>)
        (snd (unbinned_fit_polynomials example_env
               (example_series\<lparr>poly_intervals := Some [(0, 50)], user_poly_order := 3\<rparr>)))
       = [Entered ''_unbinned_fit_polynomials'']
   \<and> optimal_polynomial_grade
        (snd (fit_polynomials example_env
               (example_series\<lparr>poly_intervals := Some [(0, 50)], user_poly_order := 3\<rparr>)))
       = Some 3
   \<and> new_events (example_series\<lparr>poly_intervals := Some [(0, 50)], user_poly_order := 3\<rparr>)
        (snd (fit_polynomials example_env
               (example_series\<lparr>poly_intervals := Some [(0, 50)], user_poly_order := 3\<rparr>)))
       = [Entered ''_fit_polynomials'']"
proof -
  let ?s = "example_series\<lparr>poly_intervals := Some [(0, 50)], user_poly_order := 3\<rparr>"
  have h1: "poly_intervals ?s = Some [(0, 50)]" by simp
  have h2: "[(0, 50)] \<noteq> ([] :: time_interval_set)" by simp
  have o: "user_poly_order ?s = 3" by simp
  show ?thesis
    using explicit_degree_skips_grade_selection [OF h1 h2, of example_env] h1 o
    by simp
qed

section \<open>The default fit mode\<close>

lemma fit_polynomials_events:
  "\<exists>t. trace (snd (fit_polynomials e s)) = trace s @ Entered ''_fit_polynomials'' # t
       \<and> set t \<subseteq> {Entered ''_fit_global_and_determine_optimum_grade''}"
proof (cases "poly_intervals s")
  case None
  then show ?thesis by (simp add: fit_polynomials_def Let_def)
next
  case (Some ivs)
  show ?thesis
  proof (cases "ivs = []")
    case True
    then show ?thesis using Some by (simp add: fit_polynomials_empty)
  next
    case False
    show ?thesis
    proof (cases "user_poly_order s = - 1")
      case True
      then show ?thesis using fit_polynomials_auto_trace [OF Some False True, of e] by simp
    next
      case no: False
      obtain x ys z where "fit_polynomials e s =
           (None,
            s\<lparr>poly_fit_exists := True, bin_type := Some ''Binned'',
              fit_method := Some (binned_fit_method e),
              trace := trace s @ [Entered ''_fit_polynomials''],
              optimal_polynomial_grade := Some (user_poly_order s),
              polynomials := Some (map (\<lambda>channel. fst (polyfit e x (ys channel) (user_poly_order s) z))
                                       (channels s))\<rparr>)"
        using fit_polynomials_explicit [OF Some False no, of e] by blast
      then show ?thesis by simp
    qed
  qed
qed

lemma unbinned_fit_polynomials_events:
  "\<exists>t. trace (snd (unbinned_fit_polynomials e s))
          = trace s @ Entered ''_unbinned_fit_polynomials'' # t
       \<and> set t \<subseteq> {Entered ''_unbinned_fit_global_and_determine_optimum_grade''}"
proof (cases "poly_intervals s")
  case None
  then show ?thesis by (simp add: unbinned_fit_polynomials_def Let_def)
next
  case (Some ivs)
  show ?thesis
  proof (cases "ivs = []")
    case True
    then show ?thesis using Some by (simp add: unbinned_fit_polynomials_empty)
  next
    case False
    show ?thesis
    proof (cases "user_poly_order s = - 1")
      case True
      then show ?thesis
        using unbinned_fit_polynomials_auto_trace [OF Some False True, of e] by simp
    next
      case no: False
      obtain evs x where "unbinned_fit_polynomials e s =
           (None,
            s\<lparr>poly_fit_exists := True, bin_type := Some ''Unbinned'',
              fit_method := Some (unbinned_fit_method e),
              trace := trace s @ [Entered ''_unbinned_fit_polynomials''],
              optimal_polynomial_grade := Some (user_poly_order s),
              polynomials := Some (map (\<lambda>channel. fst (unbinned_polyfit e (evs channel)
                                            (user_poly_order s) (start_times ivs) (stop_times ivs) x))
                                       (channels s))\<rparr>)"
        using unbinned_fit_polynomials_explicit [OF Some False no, of e] by blast
      then show ?thesis by simp
    qed
  qed
qed

text \<open>
  What \<open>set_polynomial_fit_interval\<close> adds to the log once the option and the strings
  are read: the warnings, the events of the fit of the chosen mode, and the refresh of the
  active selection if there is one.
\<close>

lemma set_polynomial_fit_interval_events:
  assumes "unbinned_option options = Inr unb" and "from_strings e strs = Inr parsed"
  shows "\<exists>ws t u. new_events s (snd (set_polynomial_fit_interval e strs options s))
           = map Warned ws
             @ Entered (if unb then ''_unbinned_fit_polynomials'' else ''_fit_polynomials'') # t @ u
         \<and> set t \<subseteq> {Entered ''_fit_global_and_determine_optimum_grade'',
                      Entered ''_unbinned_fit_global_and_determine_optimum_grade''}
         \<and> set u \<subseteq> {Entered ''set_active_time_intervals''}"
proof -
  define ws where "ws = concat (map (\<lambda>time_interval.
      snd (snd (check_interval (start_time s) (stop_time s) time_interval))) parsed)"
  define s2 where "s2 = s\<lparr>trace := trace s @ map Warned ws, poly_intervals := Some parsed,
      unbinned := Some unb\<rparr>"
  define fit where "fit = (if unb then unbinned_fit_polynomials e s2 else fit_polynomials e s2)"
  obtain r s3 where rs: "fit = (r, s3)" by (cases fit)
  obtain t where t: "trace s3 = trace s2
        @ Entered (if unb then ''_unbinned_fit_polynomials'' else ''_fit_polynomials'') # t"
    and tsub: "set t \<subseteq> {Entered ''_fit_global_and_determine_optimum_grade'',
                         Entered ''_unbinned_fit_global_and_determine_optimum_grade''}"
  proof (cases unb)
    case True
    obtain t' where "trace (snd (unbinned_fit_polynomials e s2))
          = trace s2 @ Entered ''_unbinned_fit_polynomials'' # t'"
      and "set t' \<subseteq> {Entered ''_unbinned_fit_global_and_determine_optimum_grade''}"
      using unbinned_fit_polynomials_events [of e s2] by blast
    then show ?thesis using that [of t'] True rs by (auto simp: fit_def)
  next
    case False
    obtain t' where "trace (snd (fit_polynomials e s2))
          = trace s2 @ Entered ''_fit_polynomials'' # t'"
      and "set t' \<subseteq> {Entered ''_fit_global_and_determine_optimum_grade''}"
      using fit_polynomials_events [of e s2] by blast
    then show ?thesis using that [of t'] False rs by (auto simp: fit_def)
  qed
  have call: "set_polynomial_fit_interval e strs options s =
      (case r of
         Some err \<Rightarrow> (Some err, s3)
       | None \<Rightarrow>
          (let s4 = s3\<lparr>poly_fit_exists := True\<rparr>
           in if time_selection_exists s4
              then (case time_intervals s4 of
                      None \<Rightarrow> (Some (AttributeError ''to_string''), s4)
                    | Some tis \<Rightarrow>
                        (let (r', s5) = set_active_time_intervals e
                                          (split_comma (to_string e tis)) s4
                         in (r', s5\<lparr>trace := trace s4 @
                                       [Entered ''set_active_time_intervals'']\<rparr>)))
              else (None, s4)))"
    using assms rs
    by (cases unb)
       (simp_all add: set_polynomial_fit_interval_def Let_def fit_def s2_def ws_def)
  have "\<exists>u. trace (snd (set_polynomial_fit_interval e strs options s)) = trace s3 @ u
           \<and> set u \<subseteq> {Entered ''set_active_time_intervals''}"
    unfolding call
    by (cases r; cases "time_intervals s3";
        cases "set_active_time_intervals e (split_comma (to_string e (the (time_intervals s3))))
                 (s3\<lparr>poly_fit_exists := True\<rparr>)")
       (simp_all add: Let_def)
  then obtain u where u: "trace (snd (set_polynomial_fit_interval e strs options s)) = trace s3 @ u"
    and usub: "set u \<subseteq> {Entered ''set_active_time_intervals''}"
    by blast
  have "new_events s (snd (set_polynomial_fit_interval e strs options s))
          = map Warned ws
            @ Entered (if unb then ''_unbinned_fit_polynomials'' else ''_fit_polynomials'') # t @ u"
    by (simp add: new_events_def u t s2_def)
  then show ?thesis using tsub usub by blast
qed

lemma unbinned_option_False:
  "unbinned_option options = Inr False \<longleftrightarrow> options ''unbinned'' = Some (PyBool False)"
  by (auto simp: unbinned_option_def split: option.splits pyvalue.splits)

lemma unbinned_run_has_no_binned_fit:
  assumes "unbinned_option options \<noteq> Inr False"
  shows "Entered ''_fit_polynomials''
           \<notin> set (new_events s (snd (set_polynomial_fit_interval e strs options s)))"
proof (cases "unbinned_option options")
  case (Inl err)
  then show ?thesis by (simp add: set_polynomial_fit_interval_def new_events_def)
next
  case (Inr unb)
  then have unb: "unb" using assms by (cases unb) simp_all
  show ?thesis
  proof (cases "from_strings e strs")
    case (Inl err)
    then show ?thesis using Inr by (simp add: set_polynomial_fit_interval_def new_events_def)
  next
    case parsed: (Inr parsed)
    obtain ws t u where "new_events s (snd (set_polynomial_fit_interval e strs options s))
           = map Warned ws @ Entered ''_unbinned_fit_polynomials'' # t @ u"
      and "set t \<subseteq> {Entered ''_fit_global_and_determine_optimum_grade'',
                      Entered ''_unbinned_fit_global_and_determine_optimum_grade''}"
      and "set u \<subseteq> {Entered ''set_active_time_intervals''}"
      using set_polynomial_fit_interval_events [OF Inr parsed, of s] unb by auto
    then show ?thesis by auto
  qed
qed

text \<open>
  C10: a call of \<open>set_polynomial_fit_interval\<close> without the option \<open>unbinned\<close> is the
  call with \<open>unbinned=True\<close> (same result, same object, same warnings and nothing more),
  so it never enters the binned fit and, once its strings parse, enters the unbinned one;
  the binned fit is entered only by a call that passes \<open>unbinned=False\<close>.
\<close>

theorem unbinned_is_the_default:
  "(options ''unbinned'' = None \<longrightarrow>
       set_polynomial_fit_interval e strs options s
         = set_polynomial_fit_interval e strs (options(''unbinned'' \<mapsto> PyBool True)) s
     \<and> Entered ''_fit_polynomials''
         \<notin> set (new_events s (snd (set_polynomial_fit_interval e strs options s))))
   \<and> (options ''unbinned'' = None \<and> from_strings e strs = Inr parsed \<longrightarrow>
       Entered ''_unbinned_fit_polynomials''
         \<in> set (new_events s (snd (set_polynomial_fit_interval e strs options s))))
   \<and> (Entered ''_fit_polynomials''
         \<in> set (new_events s (snd (set_polynomial_fit_interval e strs options s)))
       \<longrightarrow> options ''unbinned'' = Some (PyBool False))"
proof -
  have same: "set_polynomial_fit_interval e strs options s
         = set_polynomial_fit_interval e strs (options(''unbinned'' \<mapsto> PyBool True)) s"
    if "options ''unbinned'' = None"
    using that by (simp add: set_polynomial_fit_interval_def unbinned_option_def)
  have nob: "Entered ''_fit_polynomials''
         \<notin> set (new_events s (snd (set_polynomial_fit_interval e strs options s)))"
    if "options ''unbinned'' \<noteq> Some (PyBool False)"
    using that unbinned_run_has_no_binned_fit [of options s e strs] unbinned_option_False [of options]
    by simp
  have unb: "Entered ''_unbinned_fit_polynomials''
         \<in> set (new_events s (snd (set_polynomial_fit_interval e strs options s)))"
    if "options ''unbinned'' = None" and "from_strings e strs = Inr parsed"
  proof -
    have "unbinned_option options = Inr True"
      using that(1) by (simp add: unbinned_option_def)
    from set_polynomial_fit_interval_events [OF this that(2), of s]
    show ?thesis by auto
  qed
  show ?thesis
    using same nob unb by auto
qed

theorem unbinned_is_the_default_witness:
  "(Map.empty :: string \<rightharpoonup> pyvalue) ''unbinned'' = None
   \<and> from_strings example_env [''0-50''] = Inr [(0, 50)]
   \<and> set_polynomial_fit_interval example_env [''0-50''] Map.empty example_series
       = set_polynomial_fit_interval example_env [''0-50''] [''unbinned'' \<mapsto> PyBool True]
           example_series
   \<and> new_events example_series
        (snd (set_polynomial_fit_interval example_env [''0-50''] Map.empty example_series))
       = [Entered ''_unbinned_fit_polynomials'',
          Entered ''_unbinned_fit_global_and_determine_optimum_grade'']
   \<and> Entered ''_unbinned_fit_polynomials''
        \<in> set (new_events example_series
                 (snd (set_polynomial_fit_interval example_env [''0-50''] Map.empty
                        example_series)))
   \<and> Entered ''_fit_polynomials''
        \<notin> set (new_events example_series
                 (snd (set_polynomial_fit_interval example_env [''0-50''] Map.empty
                        example_series)))"
proof -
  have h1: "(Map.empty :: string \<rightharpoonup> pyvalue) ''unbinned'' = None" by simp
  have h2: "from_strings example_env [''0-50''] = Inr [(0, 50)]"
    by (simp add: example_env_def example_from_strings_def)
  have ev: "new_events example_series
        (snd (set_polynomial_fit_interval example_env [''0-50''] Map.empty example_series))
       = [Entered ''_unbinned_fit_polynomials'',
          Entered ''_unbinned_fit_global_and_determine_optimum_grade'']"
    by (simp add: example_unbinned_fit new_events_def) (simp add: example_series_def init_def)
  note t = unbinned_is_the_default
             [of Map.empty example_env "[''0-50'']" example_series "[(0, 50)]"]
  show ?thesis
    using t h1 h2 ev by simp
qed

section \<open>Properties of saving and restoring\<close>

text \<open>
  C8: when the destination exists, \<open>save_background\<close> without \<open>overwrite\<close> raises an
  IOError and leaves the file system as it was; with \<open>overwrite\<close>, if the file cannot be
  removed, it raises an IOError whose message names the path, and again nothing is
  written.
\<close>

theorem save_background_refuses_existing_file:
  assumes "path = sanitize_filename e (fst (splitext e filename) @ ''.h5'')"
    and "os_path_exists fsys path"
  shows "(\<not> overwrite \<longrightarrow>
            save_background e s filename overwrite fsys
              = (Some (IOError (''The file '' @ path @ '' already exists!'')), fsys))
       \<and> (overwrite \<and> os_remove fsys path = None \<longrightarrow>
            save_background e s filename overwrite fsys
              = (Some (IOError (''The file '' @ path @
                   '' already exists and cannot be removed (maybe you do not have permissions to do so?). '')),
                 fsys))"
  using assms
  by (simp add: save_background_def Let_def already_exists_message_def cannot_remove_message_def)

theorem save_background_refuses_existing_file_witness:
  "os_path_exists example_files ''old.h5''
   \<and> save_background example_env example_fitted ''old.h5'' False example_files
       = (Some (IOError ''The file old.h5 already exists!''), example_files)
   \<and> os_path_exists example_files ''locked.h5''
   \<and> os_remove example_files ''locked.h5'' = None
   \<and> save_background example_env example_fitted ''locked.h5'' True example_files
       = (Some (IOError ''The file locked.h5 already exists and cannot be removed (maybe you do not have permissions to do so?). ''),
          example_files)"
proof -
  have p1: "''old.h5'' = sanitize_filename example_env (fst (splitext example_env ''old.h5'') @ ''.h5'')"
    by (simp add: example_env_def)
  have p2: "''locked.h5''
              = sanitize_filename example_env (fst (splitext example_env ''locked.h5'') @ ''.h5'')"
    by (simp add: example_env_def)
  have e1: "os_path_exists example_files ''old.h5''"
    by (simp add: os_path_exists_def example_files_def)
  have e2: "os_path_exists example_files ''locked.h5''"
    by (simp add: os_path_exists_def example_files_def)
  have r2: "os_remove example_files ''locked.h5'' = None"
    by (simp add: os_remove_def example_files_def)
  show ?thesis
    using save_background_refuses_existing_file [OF p1 e1, of False example_fitted]
      save_background_refuses_existing_file [OF p2 e2, of True example_fitted] e1 e2 r2
    by simp
qed

text \<open>Every state a successful fit leaves is a fitted state, once the mode is recorded.\<close>

lemma successful_fit_is_fitted:
  assumes "unbinned s \<noteq> None"
  shows "(fst (fit_polynomials e s) = None \<longrightarrow> fitted (snd (fit_polynomials e s)))
       \<and> (fst (unbinned_fit_polynomials e s) = None
            \<longrightarrow> fitted (snd (unbinned_fit_polynomials e s)))"
proof (cases "poly_intervals s")
  case None
  then show ?thesis
    by (simp add: fit_polynomials_def unbinned_fit_polynomials_def Let_def)
next
  case (Some ivs)
  show ?thesis
  proof (cases "ivs = []")
    case True
    then show ?thesis
      using Some by (simp add: fit_polynomials_empty unbinned_fit_polynomials_empty)
  next
    case False
    obtain m1 where m1: "union_mask (arrival_times s) ivs = Inr m1"
      using union_mask_nonempty [OF False] by blast
    let ?bins = "arange (start_time s) (stop_time s)"
    let ?mean = "map (\<lambda>i. (?bins ! i + ?bins ! (i + 1)) / 2) [0..<length ?bins - 1]"
    obtain m2 where m2: "union_mask ?mean ivs = Inr m2"
      using union_mask_nonempty [OF False] by blast
    have b: "fitted (snd (fit_polynomials e s))"
      using assms Some False m1 m2
      by (simp add: fit_polynomials_def fit_global_and_determine_optimum_grade_def
          Let_def fitted_def)
    have u: "fitted (snd (unbinned_fit_polynomials e s))"
      using assms Some False m1
      by (simp add: unbinned_fit_polynomials_def
          unbinned_fit_global_and_determine_optimum_grade_def Let_def fitted_def)
    show ?thesis using b u by simp
  qed
qed

lemma finite_cells_padded: "finite_cells (map Some r @ replicate k None) = r"
  by (simp add: finite_cells_def isfinite_def comp_def)

lemma from_previous_fit_self: "from_previous_fit (coefficients q) (covariance_matrix q) = q"
  by (cases q) (simp add: from_previous_fit_def)

lemma restore_polynomials_padded:
  "restore_polynomials
     (map (\<lambda>p. map Some (coefficients p) @ replicate (w - length (coefficients p)) None) qs)
     (map covariance_matrix (pre @ qs)) (length pre) acc
   = (None, acc @ qs)"
proof (induction qs arbitrary: pre acc)
  case Nil
  then show ?case by simp
next
  case (Cons q qs)
  have "restore_polynomials
     (map (\<lambda>p. map Some (coefficients p) @ replicate (w - length (coefficients p)) None) qs)
     (map covariance_matrix ((pre @ [q]) @ qs)) (length (pre @ [q])) (acc @ [q])
   = (None, (acc @ [q]) @ qs)"
    by (rule Cons.IH)
  then show ?case
    by (simp add: finite_cells_padded from_previous_fit_self nth_append)
qed

lemma restore_polynomials_pad_rows:
  "restore_polynomials (pad_rows (map coefficients ps)) (map covariance_matrix ps) 0 [] = (None, ps)"
  using restore_polynomials_padded [of _ ps "[]" "[]"]
  by (simp add: pad_rows_def Let_def comp_def)

text \<open>What a fitted state writes, to a destination that is free or may be replaced.\<close>

lemma save_background_fitted:
  assumes "poly_fit_exists s" and "polynomials s = Some ps"
    and "optimal_polynomial_grade s = Some g" and "poly_intervals s = Some ivs"
    and "unbinned s = Some u"
    and "path = sanitize_filename e (fst (splitext e filename) @ ''.h5'')"
    and "\<not> os_path_exists fsys path \<or> (overwrite \<and> removable fsys path)"
  shows "fst (save_background e s filename overwrite fsys) = None
       \<and> files (snd (save_background e s filename overwrite fsys)) path
           = Some \<lparr>coefficients_table = Some (pad_rows (map coefficients ps)),
                   covariance_table = Some (map covariance_matrix ps),
                   attrs_metadata = Some \<lparr>poly_order = g, poly_selections = ivs,
                                          meta_unbinned = u, meta_fit_method = fit_method s\<rparr>\<rparr>"
proof (cases "os_path_exists fsys path")
  case True
  then have "overwrite" and "removable fsys path" using assms(7) by simp_all
  then show ?thesis
    using assms(1-6) True
    by (simp add: save_background_def Let_def os_remove_def os_path_exists_def hdf_open_def
        hdf_write_def empty_store_def start_times_def stop_times_def zip_map_fst_snd)
next
  case False
  then show ?thesis
    using assms(1-6)
    by (simp add: save_background_def Let_def os_path_exists_def hdf_open_def
        hdf_write_def empty_store_def start_times_def stop_times_def zip_map_fst_snd)
qed

text \<open>What \<open>restore_fit\<close> makes of such a file, on any object.\<close>

lemma restore_fit_saved:
  assumes "files fsys (sanitize_filename e name)
           = Some \<lparr>coefficients_table = Some (pad_rows (map coefficients ps)),
                   covariance_table = Some (map covariance_matrix ps),
                   attrs_metadata = Some \<lparr>poly_order = g, poly_selections = ivs,
                                          meta_unbinned = u, meta_fit_method = fm\<rparr>\<rparr>"
    and "ivs \<noteq> []"
    and "\<not> time_selection_exists s0 \<or> keeps_fit e"
    and "restore_fit e name s0 fsys = (r, s', fsys')"
  shows "poly_fit_exists s' \<and> polynomials s' = Some ps \<and> optimal_polynomial_grade s' = Some g
       \<and> poly_intervals s' = Some ivs \<and> unbinned s' = Some u \<and> fit_method s' = fm
       \<and> (\<not> time_selection_exists s0 \<longrightarrow> r = None)"
proof -
  let ?s4 = "s0\<lparr>polynomials := Some ps, optimal_polynomial_grade := Some g,
      poly_intervals := Some ivs, unbinned := Some u,
      bin_type := Some (if u then ''unbinned'' else ''binned''), fit_method := fm,
      poly_fit_exists := True\<rparr>"
  have call: "restore_fit e name s0 fsys =
      (if time_selection_exists ?s4
       then (case time_intervals ?s4 of
               None \<Rightarrow> (Some (AttributeError ''to_string''), ?s4,
                         hdf_write fsys (sanitize_filename e name)
                           (hdf_open fsys (sanitize_filename e name)))
             | Some tis \<Rightarrow>
                 (let (r, s5) = set_active_time_intervals e (split_comma (to_string e tis)) ?s4
                  in (r, s5\<lparr>trace := trace ?s4 @ [Entered ''set_active_time_intervals'']\<rparr>,
                      hdf_write fsys (sanitize_filename e name)
                        (hdf_open fsys (sanitize_filename e name)))))
       else (None, ?s4, hdf_write fsys (sanitize_filename e name)
                         (hdf_open fsys (sanitize_filename e name))))"
  proof -
    have opened: "hdf_open fsys (sanitize_filename e name)
           = \<lparr>coefficients_table = Some (pad_rows (map coefficients ps)),
              covariance_table = Some (map covariance_matrix ps),
              attrs_metadata = Some \<lparr>poly_order = g, poly_selections = ivs,
                                     meta_unbinned = u, meta_fit_method = fm\<rparr>\<rparr>"
      using assms(1) by (simp add: hdf_open_def)
    show ?thesis
      using assms(2)
      by (simp add: restore_fit_def Let_def opened restore_polynomials_pad_rows
          from_starts_and_stops_def zip_map_fst_snd)
  qed
  have eq: "(r, s', fsys') =
      (if time_selection_exists ?s4
       then (case time_intervals ?s4 of
               None \<Rightarrow> (Some (AttributeError ''to_string''), ?s4,
                         hdf_write fsys (sanitize_filename e name)
                           (hdf_open fsys (sanitize_filename e name)))
             | Some tis \<Rightarrow>
                 (let (r, s5) = set_active_time_intervals e (split_comma (to_string e tis)) ?s4
                  in (r, s5\<lparr>trace := trace ?s4 @ [Entered ''set_active_time_intervals'']\<rparr>,
                      hdf_write fsys (sanitize_filename e name)
                        (hdf_open fsys (sanitize_filename e name)))))
       else (None, ?s4, hdf_write fsys (sanitize_filename e name)
                         (hdf_open fsys (sanitize_filename e name))))"
    using assms(4) unfolding call by (rule sym)
  show ?thesis
  proof (cases "time_selection_exists s0")
    case False
    then have "r = None" and "s' = ?s4" using eq by simp_all
    then show ?thesis by simp
  next
    case True
    then have keep: "keeps_fit e" using assms(3) by simp
    show ?thesis
    proof (cases "time_intervals s0")
      case None
      then have "s' = ?s4" using eq True by simp
      then show ?thesis using True by simp
    next
      case (Some tis)
      obtain r5 s5 where c5: "set_active_time_intervals e (split_comma (to_string e tis)) ?s4
                                = (r5, s5)"
        by (cases "set_active_time_intervals e (split_comma (to_string e tis)) ?s4")
      have k: "poly_fit_exists s5 = poly_fit_exists ?s4 \<and> polynomials s5 = polynomials ?s4
          \<and> optimal_polynomial_grade s5 = optimal_polynomial_grade ?s4
          \<and> poly_intervals s5 = poly_intervals ?s4 \<and> unbinned s5 = unbinned ?s4
          \<and> fit_method s5 = fit_method ?s4"
        using keep [unfolded keeps_fit_def Let_def, rule_format,
                    of "split_comma (to_string e tis)" ?s4]
        unfolding c5 snd_conv .
      have "s' = s5\<lparr>trace := trace ?s4 @ [Entered ''set_active_time_intervals'']\<rparr>"
        using eq True Some c5 by simp
      then show ?thesis using k True by simp
    qed
  qed
qed

text \<open>
  C2: for every fitted state, \<open>save_background\<close> to a destination that is free (or may
  be and can be replaced) succeeds, and \<open>restore_fit\<close> on the file it wrote gives any
  object the same polynomials (the coefficients and the covariance matrix of every
  channel, the fill cells of the shorter rows of the stored table stripped), the same
  grade, the same background intervals, the same unbinned flag and the same fit method;
  it raises nothing when the object has no active selection. (Where the object has one,
  the subclass's refresh is taken to leave the products of the fit alone.)
\<close>

theorem restore_fit_after_save_background:
  assumes "fitted s"
    and "path = sanitize_filename e (fst (splitext e filename) @ ''.h5'')"
    and "\<not> os_path_exists fsys path \<or> (overwrite \<and> removable fsys path)"
    and "sanitize_filename e restored_name = path"
    and "\<not> time_selection_exists s0 \<or> keeps_fit e"
    and "restore_fit e restored_name s0 (snd (save_background e s filename overwrite fsys))
           = (r, s', fsys')"
  shows "fst (save_background e s filename overwrite fsys) = None
       \<and> poly_fit_exists s'
       \<and> polynomials s' = polynomials s
       \<and> optimal_polynomial_grade s' = optimal_polynomial_grade s
       \<and> poly_intervals s' = poly_intervals s
       \<and> unbinned s' = unbinned s
       \<and> fit_method s' = fit_method s
       \<and> (\<not> time_selection_exists s0 \<longrightarrow> r = None)"
proof -
  obtain ps g ivs u where st: "poly_fit_exists s" "polynomials s = Some ps"
      "optimal_polynomial_grade s = Some g" "poly_intervals s = Some ivs" "unbinned s = Some u"
    and ne: "ivs \<noteq> []"
    using assms(1) by (auto simp: fitted_def)
  note saved = save_background_fitted [OF st assms(2,3)]
  have stored: "files (snd (save_background e s filename overwrite fsys))
                (sanitize_filename e restored_name)
           = Some \<lparr>coefficients_table = Some (pad_rows (map coefficients ps)),
                   covariance_table = Some (map covariance_matrix ps),
                   attrs_metadata = Some \<lparr>poly_order = g, poly_selections = ivs,
                                          meta_unbinned = u, meta_fit_method = fit_method s\<rparr>\<rparr>"
    using saved assms(4) by simp
  show ?thesis
    using restore_fit_saved [OF stored ne assms(5,6)] saved st by simp
qed

theorem restore_fit_after_save_background_witness:
  "fitted example_ragged
   \<and> \<not> os_path_exists example_files ''bkg.h5''
   \<and> \<not> time_selection_exists example_series
   \<and> fst (save_background example_env example_ragged ''bkg'' False example_files) = None
   \<and> coefficients_table
        (the (files (snd (save_background example_env example_ragged ''bkg'' False example_files))
                ''bkg.h5''))
       = Some [[Some 2, Some 2], [Some 0, None]]
   \<and> fst (restore_fit example_env ''bkg.h5'' example_series
            (snd (save_background example_env example_ragged ''bkg'' False example_files)))
       = None
   \<and> polynomials
        (fst (snd (restore_fit example_env ''bkg.h5'' example_series
            (snd (save_background example_env example_ragged ''bkg'' False example_files)))))
       = Some [\<lparr>coefficients = [2, 2], covariance_matrix = [[50]]\<rparr>,
               \<lparr>coefficients = [0], covariance_matrix = [[0]]\<rparr>]
   \<and> optimal_polynomial_grade
        (fst (snd (restore_fit example_env ''bkg.h5'' example_series
            (snd (save_background example_env example_ragged ''bkg'' False example_files)))))
       = Some 2
   \<and> poly_intervals
        (fst (snd (restore_fit example_env ''bkg.h5'' example_series
            (snd (save_background example_env example_ragged ''bkg'' False example_files)))))
       = Some [(0, 50)]"
proof -
  let ?saved = "snd (save_background example_env example_ragged ''bkg'' False example_files)"
  let ?res = "restore_fit example_env ''bkg.h5'' example_series ?saved"
  have f: "fitted example_ragged"
    by (simp add: fitted_def example_ragged_def example_fitted_eq)
  have p: "''bkg.h5'' = sanitize_filename example_env (fst (splitext example_env ''bkg'') @ ''.h5'')"
    by (simp add: example_env_def)
  have w: "\<not> os_path_exists example_files ''bkg.h5'' \<or> (False \<and> removable example_files ''bkg.h5'')"
    by (simp add: os_path_exists_def example_files_def)
  have n: "sanitize_filename example_env ''bkg.h5'' = ''bkg.h5''"
    by (simp add: example_env_def)
  have nsel: "\<not> time_selection_exists example_series"
    by (simp add: example_series_def init_def)
  then have a: "\<not> time_selection_exists example_series \<or> keeps_fit example_env"
    by simp
  have nex: "\<not> os_path_exists example_files ''bkg.h5''"
    by (simp add: os_path_exists_def example_files_def)
  have r: "?res = (fst ?res, fst (snd ?res), snd (snd ?res))" by simp
  have table: "coefficients_table (the (files ?saved ''bkg.h5''))
       = Some [[Some 2, Some 2], [Some 0, None]]"
    using save_background_fitted [of example_ragged
        "[\<lparr>coefficients = [2, 2], covariance_matrix = [[50]]\<rparr>,
          \<lparr>coefficients = [0], covariance_matrix = [[0]]\<rparr>]" 2 "[(0, 50)]" True
        "''bkg.h5''" example_env "''bkg''" example_files False]
    by (simp add: example_ragged_def example_fitted_eq example_env_def os_path_exists_def
        example_files_def pad_rows_def)
  have vals: "polynomials example_ragged
                = Some [\<lparr>coefficients = [2, 2], covariance_matrix = [[50]]\<rparr>,
                        \<lparr>coefficients = [0], covariance_matrix = [[0]]\<rparr>]
              \<and> optimal_polynomial_grade example_ragged = Some 2
              \<and> poly_intervals example_ragged = Some [(0, 50)]"
    by (simp add: example_ragged_def example_fitted_eq)
  show ?thesis
    using restore_fit_after_save_background [OF f p w n a r] table vals f nsel nex
    by simp
qed

text \<open>
  Beside the round trip: the label \<open>bin type\<close> of the fit-method information is not
  stored; \<open>restore_fit\<close> derives it from the unbinned flag and writes it in lower case,
  where the fits write \<open>Binned\<close> and \<open>Unbinned\<close>.
\<close>

theorem restored_bin_type_label_is_lower_case:
  "bin_type example_ragged = Some ''Unbinned''
   \<and> bin_type
        (fst (snd (restore_fit example_env ''bkg.h5'' example_series
            (snd (save_background example_env example_ragged ''bkg'' False example_files)))))
       = Some ''unbinned''"
  by (simp add: example_ragged_def example_fitted_eq save_background_def restore_fit_def
      example_env_def example_files_def example_series_def init_def os_path_exists_def
      hdf_open_def hdf_write_def empty_store_def pad_rows_def finite_cells_def isfinite_def
      from_previous_fit_def from_starts_and_stops_def start_times_def stop_times_def Let_def)

end
